theory Spec2Isabelle
  imports Complex_Main "HOL-Library.Word"
begin

section \<open>Knowledge distillation: the Distiller class and the data preparation\<close>

text \<open>
  The notebook defines one class, \<open>Distiller(keras.Model)\<close>, with the methods
  \<open>__init__\<close>, \<open>compile\<close>, \<open>train_step\<close> and \<open>test_step\<close>, and a cell that
  loads and normalises the image data. Everything else (networks, losses, optimiser,
  metrics, automatic differentiation) belongs to the libraries the notebook calls; the
  model takes those as values: functions stored in the objects, as Python stores them.
  A call into the libraries may raise; it then returns \<open>Inl e\<close>.

  Numbers. A tensor element is a \<open>float32\<close>: a finite number, an infinity or NaN. The
  finite numbers are the reals here and arithmetic on them is exact: rounding, overflow
  and underflow are not modelled, nor is the sign of zero. Infinities and NaN follow the
  rules of IEEE arithmetic.
\<close>

subsection \<open>Tensor elements\<close>

datatype fl = Fin real | PInf | MInf | NaN

fun fl_add :: "fl \<Rightarrow> fl \<Rightarrow> fl" where
  "fl_add (Fin a) (Fin b) = Fin (a + b)"
| "fl_add NaN _ = NaN"
| "fl_add _ NaN = NaN"
| "fl_add PInf MInf = NaN"
| "fl_add MInf PInf = NaN"
| "fl_add PInf _ = PInf"
| "fl_add _ PInf = PInf"
| "fl_add MInf _ = MInf"
| "fl_add _ MInf = MInf"

fun fl_neg :: "fl \<Rightarrow> fl" where
  "fl_neg (Fin a) = Fin (- a)"
| "fl_neg PInf = MInf"
| "fl_neg MInf = PInf"
| "fl_neg NaN = NaN"

definition fl_sub :: "fl \<Rightarrow> fl \<Rightarrow> fl" where
  "fl_sub a b = fl_add a (fl_neg b)"

fun fl_mul :: "fl \<Rightarrow> fl \<Rightarrow> fl" where
  "fl_mul (Fin a) (Fin b) = Fin (a * b)"
| "fl_mul NaN _ = NaN"
| "fl_mul _ NaN = NaN"
| "fl_mul PInf (Fin b) = (if b = 0 then NaN else if 0 < b then PInf else MInf)"
| "fl_mul MInf (Fin b) = (if b = 0 then NaN else if 0 < b then MInf else PInf)"
| "fl_mul (Fin a) PInf = (if a = 0 then NaN else if 0 < a then PInf else MInf)"
| "fl_mul (Fin a) MInf = (if a = 0 then NaN else if 0 < a then MInf else PInf)"
| "fl_mul PInf PInf = PInf"
| "fl_mul MInf MInf = PInf"
| "fl_mul PInf MInf = MInf"
| "fl_mul MInf PInf = MInf"

text \<open>
  Division does not raise: a finite number divided by zero is an infinity of its sign,
  and \<open>0 / 0\<close> is NaN.
\<close>

fun fl_div :: "fl \<Rightarrow> fl \<Rightarrow> fl" where
  "fl_div (Fin a) (Fin b) =
     (if b \<noteq> 0 then Fin (a / b) else if a = 0 then NaN else if 0 < a then PInf else MInf)"
| "fl_div NaN _ = NaN"
| "fl_div _ NaN = NaN"
| "fl_div (Fin a) PInf = Fin 0"
| "fl_div (Fin a) MInf = Fin 0"
| "fl_div PInf (Fin b) = (if 0 \<le> b then PInf else MInf)"
| "fl_div MInf (Fin b) = (if 0 \<le> b then MInf else PInf)"
| "fl_div _ _ = NaN"

fun fl_exp :: "fl \<Rightarrow> fl" where
  "fl_exp (Fin a) = Fin (exp a)"
| "fl_exp PInf = PInf"
| "fl_exp MInf = Fin 0"
| "fl_exp NaN = NaN"

definition fl_sum :: "fl list \<Rightarrow> fl" where
  "fl_sum xs = foldr fl_add xs (Fin 0)"

text \<open>A rank-2 tensor of logits or probabilities: one row per example of the batch.\<close>

type_synonym tensor2 = "fl list list"

text \<open>\<open>tensor / number\<close>: every element is divided by the number.\<close>

definition truediv :: "tensor2 \<Rightarrow> real \<Rightarrow> tensor2" where
  "truediv z t = map (map (\<lambda>v. fl_div v (Fin t))) z"

text \<open>
  \<open>tf.nn.softmax(z, axis=1)\<close>, that is \<open>exp(z) / reduce_sum(exp(z), axis=1)\<close>: each
  row is exponentiated and divided by its sum.
\<close>

definition softmax_row :: "fl list \<Rightarrow> fl list" where
  "softmax_row xs = (let es = map fl_exp xs; s = fl_sum es in map (\<lambda>e. fl_div e s) es)"

definition softmax_axis1 :: "tensor2 \<Rightarrow> tensor2" where
  "softmax_axis1 z = map softmax_row z"

subsection \<open>The objects the Distiller holds\<close>

text \<open>
  A variable of a network is named by a number; the values of all variables are a
  store. Two networks that share a layer name the same variables.

  A network is called with a flag: \<open>model(x, training=False)\<close> is the forward pass in
  inference mode, which assigns no variable; \<open>model(x, training=True)\<close> is the forward
  pass in training mode, in which a layer may assign variables of its own (batch
  normalisation updates its moving statistics), so it returns the store as well.
\<close>

type_synonym var = nat

record ('t, 'w, 'e) model =
  trainable_variables :: "var list"
  weights :: "var list"
  forward :: "(var \<Rightarrow> 'w) \<Rightarrow> 't \<Rightarrow> 'e + tensor2"
  forward_training :: "(var \<Rightarrow> 'w) \<Rightarrow> 't \<Rightarrow> ('e + tensor2) \<times> (var \<Rightarrow> 'w)"

definition call ::
  "('t, 'w, 'e) model \<Rightarrow> (var \<Rightarrow> 'w) \<Rightarrow> 't \<Rightarrow> bool \<Rightarrow> ('e + tensor2) \<times> (var \<Rightarrow> 'w)" where
  "call m vs x training = (if training then forward_training m vs x else (forward m vs x, vs))"

record ('g, 'w, 'o, 'e) optimizer_obj =
  apply_gradients :: "('g \<times> var) list \<Rightarrow> 'o \<Rightarrow> (var \<Rightarrow> 'w) \<Rightarrow> 'e option \<times> 'o \<times> (var \<Rightarrow> 'w)"

record ('ms, 'e) metric =
  name :: string
  result :: "'ms \<Rightarrow> 'e + fl"

text \<open>
  The base class keeps the metrics handed to \<open>compile\<close> in a container:
  \<open>self.compiled_metrics.update_state(y, y_pred)\<close> updates them, and \<open>self.metrics\<close>
  lists them.
\<close>

record ('t, 'ms, 'e) metrics_container =
  update_state :: "'t \<Rightarrow> tensor2 \<Rightarrow> 'ms \<Rightarrow> 'e option \<times> 'ms"
  members :: "('ms, 'e) metric list"

text \<open>What a step can change: the variables, the optimiser's and the metrics' state.\<close>

record ('w, 'o, 'ms) state =
  variables :: "var \<Rightarrow> 'w"
  optimizer_state :: 'o
  metrics_state :: 'ms

text \<open>
  What a step raises: the \<open>ValueError\<close> of Python's \<open>x, y = data\<close> for a batch that
  is not a pair, or the exception \<open>e\<close> of a library call.
\<close>

datatype 'e exn = Unpack_ValueError | Raised 'e

subsection \<open>\<open>Distiller.__init__\<close> and \<open>Distiller.compile\<close>\<close>

record ('t, 'w, 'e) distiller_init =
  teacher :: "('t, 'w, 'e) model"
  student :: "('t, 'w, 'e) model"

record ('t, 'w, 'g, 'o, 'ms, 'e) distiller = "('t, 'w, 'e) distiller_init" +
  optimizer :: "('g, 'w, 'o, 'e) optimizer_obj"
  compiled_metrics :: "('t, 'ms, 'e) metrics_container"
  student_loss_fn :: "'t \<Rightarrow> tensor2 \<Rightarrow> 'e + fl"
  distillation_loss_fn :: "tensor2 \<Rightarrow> tensor2 \<Rightarrow> 'e + fl"
  alpha :: real
  temperature :: real

definition metrics :: "('t, 'w, 'g, 'o, 'ms, 'e) distiller \<Rightarrow> ('ms, 'e) metric list" where
  "metrics self = members (compiled_metrics self)"

definition Distiller :: "('t, 'w, 'e) model \<Rightarrow> ('t, 'w, 'e) model \<Rightarrow> ('t, 'w, 'e) distiller_init" where
  "Distiller student_arg teacher_arg = \<lparr>teacher = teacher_arg, student = student_arg\<rparr>"

text \<open>
  \<open>compile(self, optimizer, metrics, student_loss_fn, distillation_loss_fn,
  alpha=0.1, temperature=3)\<close>. An omitted keyword argument is \<open>None\<close> here. The method
  hands optimiser and metrics to the base class and assigns the other four.
\<close>

definition compile ::
  "('t, 'w, 'e, 'z) distiller_init_scheme \<Rightarrow> ('g, 'w, 'o, 'e) optimizer_obj \<Rightarrow>
   ('t, 'ms, 'e) metrics_container \<Rightarrow> ('t \<Rightarrow> tensor2 \<Rightarrow> 'e + fl) \<Rightarrow> (tensor2 \<Rightarrow> tensor2 \<Rightarrow> 'e + fl) \<Rightarrow>
   real option \<Rightarrow> real option \<Rightarrow> ('t, 'w, 'g, 'o, 'ms, 'e) distiller" where
  "compile self optimizer_arg metrics_arg student_loss_fn_arg distillation_loss_fn_arg
     alpha_arg temperature_arg =
     \<lparr>teacher = teacher self, student = student self,
      optimizer = optimizer_arg, compiled_metrics = metrics_arg,
      student_loss_fn = student_loss_fn_arg,
      distillation_loss_fn = distillation_loss_fn_arg,
      alpha = (case alpha_arg of None \<Rightarrow> 1 / 10 | Some a \<Rightarrow> a),
      temperature = (case temperature_arg of None \<Rightarrow> 3 | Some t \<Rightarrow> t)\<rparr>"

subsection \<open>\<open>Distiller.train_step\<close>\<close>

text \<open>
  The body of \<open>with tf.GradientTape() as tape\<close>, as a function of the values of the
  variables: the student's forward pass in training mode, the two losses and their
  weighted sum. The teacher's predictions were computed before the tape was opened and
  enter as a constant.
\<close>

definition taped ::
  "('t, 'w, 'g, 'o, 'ms, 'e) distiller \<Rightarrow> tensor2 \<Rightarrow> 't \<Rightarrow> 't \<Rightarrow> (var \<Rightarrow> 'w) \<Rightarrow>
   'e + (tensor2 \<times> fl \<times> fl \<times> fl)" where
  "taped self teacher_predictions x y vs =
     (case fst (call (student self) vs x True) of
        Inl e \<Rightarrow> Inl e
      | Inr student_predictions \<Rightarrow>
     (case student_loss_fn self y student_predictions of
        Inl e \<Rightarrow> Inl e
      | Inr student_loss \<Rightarrow>
     (case distillation_loss_fn self
             (softmax_axis1 (truediv teacher_predictions (temperature self)))
             (softmax_axis1 (truediv student_predictions (temperature self))) of
        Inl e \<Rightarrow> Inl e
      | Inr distillation_loss \<Rightarrow>
          Inr (student_predictions, student_loss, distillation_loss,
               fl_add (fl_mul (Fin (alpha self)) student_loss)
                      (fl_mul (Fin (1 - alpha self)) distillation_loss)))))"

text \<open>The value \<open>loss\<close> of the tape, which \<open>tape.gradient\<close> differentiates.\<close>

definition taped_loss ::
  "('t, 'w, 'g, 'o, 'ms, 'e) distiller \<Rightarrow> tensor2 \<Rightarrow> 't \<Rightarrow> 't \<Rightarrow> (var \<Rightarrow> 'w) \<Rightarrow> 'e + fl" where
  "taped_loss self teacher_predictions x y vs =
     (case taped self teacher_predictions x y vs of
        Inl e \<Rightarrow> Inl e
      | Inr (student_predictions, student_loss, distillation_loss, loss) \<Rightarrow> Inr loss)"

text \<open>
  \<open>{m.name: m.result() for m in self.metrics}\<close>: the entries are written in the
  order of the list into the dictionary built so far.
\<close>

fun metric_results ::
  "('ms, 'e) metric list \<Rightarrow> 'ms \<Rightarrow> (string \<rightharpoonup> fl) \<Rightarrow> 'e + (string \<rightharpoonup> fl)" where
  "metric_results [] ms results = Inr results"
| "metric_results (m # rest) ms results =
     (case result m ms of
        Inl e \<Rightarrow> Inl e
      | Inr r \<Rightarrow> metric_results rest ms (results(name m \<mapsto> r)))"

text \<open>
  \<open>train_step(self, data)\<close>. The batch \<open>data\<close> is a tuple; \<open>x, y = data\<close> raises
  unless it has two components. The first argument is \<open>tape.gradient\<close>: given the
  taped computation, the values of the variables it ran on and the variables to
  differentiate by, it returns one gradient per variable or raises. The result is what
  the method returns or raises, and the state it leaves behind.
\<close>

definition train_step ::
  "(((var \<Rightarrow> 'w) \<Rightarrow> 'e + fl) \<Rightarrow> (var \<Rightarrow> 'w) \<Rightarrow> var list \<Rightarrow> 'e + 'g list) \<Rightarrow>
   ('t, 'w, 'g, 'o, 'ms, 'e) distiller \<Rightarrow> 't list \<Rightarrow> ('w, 'o, 'ms) state \<Rightarrow>
   ('e exn + (string \<rightharpoonup> fl)) \<times> ('w, 'o, 'ms) state" where
  "train_step tape_gradient self data s =
     (case data of
        [x, y] \<Rightarrow>
     (case call (teacher self) (variables s) x False of
        (Inl e, vs0) \<Rightarrow> (Inl (Raised e), s\<lparr>variables := vs0\<rparr>)
      | (Inr teacher_predictions, vs0) \<Rightarrow>
     (let s1 = s\<lparr>variables := snd (call (student self) vs0 x True)\<rparr> in
     (case taped self teacher_predictions x y vs0 of
        Inl e \<Rightarrow> (Inl (Raised e), s1)
      | Inr (student_predictions, student_loss, distillation_loss, loss) \<Rightarrow>
     (let trainable_vars = trainable_variables (student self) in
     (case tape_gradient (taped_loss self teacher_predictions x y) vs0 trainable_vars of
        Inl e \<Rightarrow> (Inl (Raised e), s1)
      | Inr gradients \<Rightarrow>
     (case apply_gradients (optimizer self) (zip gradients trainable_vars)
             (optimizer_state s1) (variables s1) of
        (raised, os', vs') \<Rightarrow>
     (let s2 = s1\<lparr>variables := vs', optimizer_state := os'\<rparr> in
     (case raised of
        Some e \<Rightarrow> (Inl (Raised e), s2)
      | None \<Rightarrow>
     (case update_state (compiled_metrics self) y student_predictions (metrics_state s2) of
        (raised', ms') \<Rightarrow>
     (let s3 = s2\<lparr>metrics_state := ms'\<rparr> in
     (case raised' of
        Some e \<Rightarrow> (Inl (Raised e), s3)
      | None \<Rightarrow>
     (case metric_results (metrics self) (metrics_state s3) Map.empty of
        Inl e \<Rightarrow> (Inl (Raised e), s3)
      | Inr results \<Rightarrow>
          (Inr (results ++ [''student_loss'' \<mapsto> student_loss,
                            ''distillation_loss'' \<mapsto> distillation_loss]), s3)))))))))))))
      | _ \<Rightarrow> (Inl Unpack_ValueError, s))"

subsection \<open>\<open>Distiller.test_step\<close>\<close>

definition test_step ::
  "('t, 'w, 'g, 'o, 'ms, 'e) distiller \<Rightarrow> 't list \<Rightarrow> ('w, 'o, 'ms) state \<Rightarrow>
   ('e exn + (string \<rightharpoonup> fl)) \<times> ('w, 'o, 'ms) state" where
  "test_step self data s =
     (case data of
        [x, y] \<Rightarrow>
     (case call (student self) (variables s) x False of
        (Inl e, vs0) \<Rightarrow> (Inl (Raised e), s\<lparr>variables := vs0\<rparr>)
      | (Inr y_prediction, vs0) \<Rightarrow>
     (let s0 = s\<lparr>variables := vs0\<rparr> in
     (case student_loss_fn self y y_prediction of
        Inl e \<Rightarrow> (Inl (Raised e), s0)
      | Inr student_loss \<Rightarrow>
     (case update_state (compiled_metrics self) y y_prediction (metrics_state s0) of
        (raised, ms') \<Rightarrow>
     (let s1 = s0\<lparr>metrics_state := ms'\<rparr> in
     (case raised of
        Some e \<Rightarrow> (Inl (Raised e), s1)
      | None \<Rightarrow>
     (case metric_results (metrics self) (metrics_state s1) Map.empty of
        Inl e \<Rightarrow> (Inl (Raised e), s1)
      | Inr results \<Rightarrow>
          (Inr (results ++ [''student_loss'' \<mapsto> student_loss]), s1))))))))
      | _ \<Rightarrow> (Inl Unpack_ValueError, s))"

subsection \<open>Loading and normalising the images\<close>

text \<open>
  An array is its shape and its elements in row-major order. The loaded images are
  arrays of bytes; \<open>x.astype('float32') / 255.0\<close> converts each byte (exactly) and
  divides it by 255, rounding the quotient to a \<open>float32\<close>: \<open>rnd\<close> is that rounding.
\<close>

record 'a ndarray =
  shape :: "nat list"
  elems :: "'a list"

definition size_of :: "nat list \<Rightarrow> nat" where
  "size_of dims = prod_list dims"

definition well_shaped :: "'a ndarray \<Rightarrow> bool" where
  "well_shaped a = (length (elems a) = size_of (shape a))"

definition astype_float32 :: "8 word ndarray \<Rightarrow> real ndarray" where
  "astype_float32 a = \<lparr>shape = shape a, elems = map (\<lambda>b. real (unat b)) (elems a)\<rparr>"

definition divide_scalar :: "(real \<Rightarrow> real) \<Rightarrow> real ndarray \<Rightarrow> real \<Rightarrow> real ndarray" where
  "divide_scalar rnd a c = \<lparr>shape = shape a, elems = map (\<lambda>v. rnd (v / c)) (elems a)\<rparr>"

datatype np_error = ValueError

text \<open>
  \<open>np.reshape(a, newshape)\<close>: the elements stay as they are. One entry of the new
  shape may be \<open>-1\<close>; it is then the size of the array divided by the product of the
  other entries, which must divide it. Without a \<open>-1\<close> the new shape must have the
  array's size.
\<close>

definition reshape :: "'a ndarray \<Rightarrow> int list \<Rightarrow> np_error + 'a ndarray" where
  "reshape a newshape =
     (let n = length (elems a);
          known = prod_list (map nat (filter (\<lambda>d. d \<noteq> -1) newshape)) in
      if \<exists>d \<in> set newshape. d < -1 then Inl ValueError
      else if length (filter (\<lambda>d. d = -1) newshape) > 1 then Inl ValueError
      else if length (filter (\<lambda>d. d = -1) newshape) = 1 then
        (if known = 0 \<or> n mod known \<noteq> 0 then Inl ValueError
         else Inr \<lparr>shape = map (\<lambda>d. if d = -1 then n div known else nat d) newshape,
                   elems = elems a\<rparr>)
      else if known = n then Inr \<lparr>shape = map nat newshape, elems = elems a\<rparr>
      else Inl ValueError)"

text \<open>
  The two lines of the notebook, for \<open>x_train\<close> and for \<open>x_test\<close> alike:
  \<open>x = x.astype('float32') / 255.0; x = np.reshape(x, (-1, 28, 28, 1))\<close>.
\<close>

definition normalize_images :: "(real \<Rightarrow> real) \<Rightarrow> 8 word ndarray \<Rightarrow> np_error + real ndarray" where
  "normalize_images rnd x = reshape (divide_scalar rnd (astype_float32 x) 255) [-1, 28, 28, 1]"


subsection \<open>Notions the properties are stated with\<close>

text \<open>The temperature-softened tensor of a tensor of logits, as \<open>train_step\<close> computes
  it for the teacher and for the student: \<open>tf.nn.softmax(z / t, axis=1)\<close>.\<close>

definition softened :: "real \<Rightarrow> tensor2 \<Rightarrow> tensor2" where
  "softened t z = softmax_axis1 (truediv z t)"

fun the_fin :: "fl \<Rightarrow> real" where
  "the_fin (Fin a) = a"
| "the_fin _ = 0"

fun is_fin :: "fl \<Rightarrow> bool" where
  "is_fin (Fin a) = True"
| "is_fin _ = False"

text \<open>The softmax of real logits \<open>xs\<close> at temperature \<open>t\<close>, in exact arithmetic.\<close>

definition softmax_real :: "real \<Rightarrow> real list \<Rightarrow> real list" where
  "softmax_real t xs = map (\<lambda>x. exp (x / t) / (\<Sum>y\<leftarrow>xs. exp (y / t))) xs"


text \<open>What is expected of an optimiser: \<open>apply_gradients\<close> assigns to no variable
  other than those it is given, whether it returns or raises.\<close>

definition writes_only_given ::
  "(('g \<times> var) list \<Rightarrow> 'o \<Rightarrow> (var \<Rightarrow> 'w) \<Rightarrow> 'e option \<times> 'o \<times> (var \<Rightarrow> 'w)) \<Rightarrow> bool" where
  "writes_only_given ag =
     (\<forall>gvs os vs v. v \<notin> snd ` set gvs \<longrightarrow> snd (snd (ag gvs os vs)) v = vs v)"

text \<open>What is expected of a network: its forward pass in training mode assigns to no
  variable other than its own weights.\<close>

definition assigns_own_weights :: "('t, 'w, 'e) model \<Rightarrow> bool" where
  "assigns_own_weights m =
     (\<forall>vs x v. v \<notin> set (weights m) \<longrightarrow> snd (forward_training m vs x) v = vs v)"

subsection \<open>A small instance\<close>

text \<open>
  Two small networks over two classes, whose variables hold single numbers. The student
  has a trainable weight (variable 0), a fixed bias (variable 2) and a statistic that its
  forward pass in training mode sets to the input (variable 3); its logits for the input
  \<open>x\<close> are \<open>w * x + b\<close> and \<open>w * x\<close>. The teacher has one weight (variable 1), logits
  \<open>w * x\<close> and \<open>0\<close>, and refuses to run in training mode.
\<close>

definition toy_student :: "(real, fl, string) model" where
  "toy_student = \<lparr>trainable_variables = [0], weights = [0, 2, 3],
     forward = (\<lambda>vs x. Inr [[fl_add (fl_mul (vs 0) (Fin x)) (vs 2), fl_mul (vs 0) (Fin x)]]),
     forward_training = (\<lambda>vs x.
       (Inr [[fl_add (fl_mul (vs 0) (Fin x)) (vs 2), fl_mul (vs 0) (Fin x)]], vs(3 := Fin x)))\<rparr>"

definition toy_teacher :: "(real, fl, string) model" where
  "toy_teacher = \<lparr>trainable_variables = [1], weights = [1],
     forward = (\<lambda>vs x. Inr [[fl_mul (vs 1) (Fin x), Fin 0]]),
     forward_training = (\<lambda>vs x. (Inl ''teacher in training mode'', vs))\<rparr>"

text \<open>Gradient descent with learning rate 1, counting its steps.\<close>

definition sgd :: "(fl, fl, nat, string) optimizer_obj" where
  "sgd = \<lparr>apply_gradients =
     (\<lambda>gvs n vs. (None, Suc n, fold (\<lambda>gv vs'. vs'(snd gv := fl_sub (vs' (snd gv)) (fst gv))) gvs vs))\<rparr>"

text \<open>One metric, the number of batches seen.\<close>

definition toy_metrics :: "(real, nat, string) metrics_container" where
  "toy_metrics = \<lparr>update_state = (\<lambda>y p n. (None, Suc n)),
     members = [\<lparr>name = ''accuracy'', result = (\<lambda>n. Inr (Fin (real n)))\<rparr>]\<rparr>"

fun first_entry :: "tensor2 \<Rightarrow> string + fl" where
  "first_entry ((a # _) # _) = Inr a"
| "first_entry _ = Inl ''shape''"

text \<open>The student loss is the first logit minus the label; the distillation loss is
  the first target probability plus twice the first predicted probability.\<close>

definition toy_student_loss :: "real \<Rightarrow> tensor2 \<Rightarrow> string + fl" where
  "toy_student_loss y p =
     (case first_entry p of Inl e \<Rightarrow> Inl e | Inr a \<Rightarrow> Inr (fl_sub a (Fin y)))"

definition toy_distillation_loss :: "tensor2 \<Rightarrow> tensor2 \<Rightarrow> string + fl" where
  "toy_distillation_loss p q =
     (case first_entry p of
        Inl e \<Rightarrow> Inl e
      | Inr a \<Rightarrow> (case first_entry q of
                    Inl e \<Rightarrow> Inl e
                  | Inr b \<Rightarrow> Inr (fl_add a (fl_mul (Fin 2) b))))"

text \<open>
  With these networks and losses the taped loss is affine in the student's weight (the
  softmax does not change when both logits move by \<open>w * x\<close>), and the derivative of an
  affine function is its increase over a step of 1: that is \<open>toy_gradient\<close>.
\<close>

fun lossval :: "string + fl \<Rightarrow> fl" where
  "lossval (Inr a) = a"
| "lossval (Inl e) = NaN"

definition toy_gradient ::
  "((var \<Rightarrow> fl) \<Rightarrow> string + fl) \<Rightarrow> (var \<Rightarrow> fl) \<Rightarrow> var list \<Rightarrow> string + fl list" where
  "toy_gradient f vs xs =
     Inr (map (\<lambda>v. fl_sub (lossval (f (vs(v := fl_add (vs v) (Fin 1))))) (lossval (f vs))) xs)"

text \<open>The Distiller of the notebook: \<open>alpha = 0.1\<close>, \<open>temperature = 10\<close>.\<close>

definition toy_distiller :: "(real, fl, fl, nat, nat, string) distiller" where
  "toy_distiller = compile (Distiller toy_student toy_teacher) sgd toy_metrics
     toy_student_loss toy_distillation_loss (Some (1 / 10)) (Some 10)"

text \<open>
  A state for the temperature \<open>t\<close>: student weight 1 and bias \<open>t * ln 2\<close>, teacher
  weight \<open>t * ln 3 / 10\<close>. For the input 10 the softened student is \<open>(2/3, 1/3)\<close> and
  the softened teacher \<open>(3/4, 1/4)\<close>.
\<close>

definition toy_state :: "real \<Rightarrow> (fl, nat, nat) state" where
  "toy_state t = \<lparr>variables = (\<lambda>v. Fin 0)(0 := Fin 1, 1 := Fin (t * ln 3 / 10), 2 := Fin (t * ln 2)),
     optimizer_state = 0, metrics_state = 0\<rparr>"

section \<open>Properties\<close>


lemma sum_list_exp_pos: "xs \<noteq> [] \<Longrightarrow> 0 < (\<Sum>y\<leftarrow>xs. exp (f y :: real))"
proof (induction xs)
  case Nil then show ?case by simp
next
  case (Cons a xs)
  have "0 \<le> (\<Sum>y\<leftarrow>xs. exp (f y))" by (rule sum_list_nonneg) auto
  then show ?case using exp_gt_zero [of "f a"] by (simp add: add_pos_nonneg)
qed

lemma all_fin_Fin: "list_all is_fin row \<Longrightarrow> \<exists>xs. row = map Fin xs"
proof (induction row)
  case Nil then show ?case by simp
next
  case (Cons a row)
  then obtain xs where "row = map Fin xs" by auto
  moreover obtain x where "a = Fin x" using Cons.prems by (cases a) auto
  ultimately have "a # row = map Fin (x # xs)" by simp
  then show ?case by (rule exI)
qed



lemma sum_list_divide: "(\<Sum>x\<leftarrow>xs. f x / (c::real)) = (\<Sum>x\<leftarrow>xs. f x) / c"
  by (induction xs) (simp_all add: add_divide_distrib)

lemma softmax_real_sum: "xs \<noteq> [] \<Longrightarrow> sum_list (softmax_real t xs) = 1"
  using sum_list_exp_pos [of xs "\<lambda>y. y / t"]
  by (simp add: softmax_real_def comp_def sum_list_divide)

lemma softmax_real_pos: "xs \<noteq> [] \<Longrightarrow> p \<in> set (softmax_real t xs) \<Longrightarrow> 0 < p"
  using sum_list_exp_pos [of xs "\<lambda>y. y / t"]
  by (auto simp: softmax_real_def)













subsection \<open>The steps, case by case\<close>

lemma call_inference [simp]: "call m vs x False = (forward m vs x, vs)"
  by (simp add: call_def)

lemma call_training [simp]: "call m vs x True = forward_training m vs x"
  by (simp add: call_def)

lemma taped_Inr:
  "taped d tp x y vs = Inr (sp, sl, dl, loss) \<longleftrightarrow>
     fst (call (student d) vs x True) = Inr sp \<and> student_loss_fn d y sp = Inr sl \<and>
     distillation_loss_fn d (softened (temperature d) tp) (softened (temperature d) sp) = Inr dl \<and>
     loss = fl_add (fl_mul (Fin (alpha d)) sl) (fl_mul (Fin (1 - alpha d)) dl)"
  by (auto simp: taped_def softened_def split: sum.splits)

lemma taped_Inl:
  "taped d tp x y vs = Inl e \<longleftrightarrow>
     fst (call (student d) vs x True) = Inl e \<or>
     (\<exists>sp. fst (call (student d) vs x True) = Inr sp \<and>
        (student_loss_fn d y sp = Inl e \<or>
         (\<exists>sl. student_loss_fn d y sp = Inr sl \<and>
            distillation_loss_fn d (softened (temperature d) tp) (softened (temperature d) sp) = Inl e)))"
  by (auto simp: taped_def softened_def split: sum.splits)

lemma taped_loss_Inr:
  "taped_loss d tp x y vs = Inr loss \<longleftrightarrow>
     (\<exists>sp sl dl. taped d tp x y vs = Inr (sp, sl, dl, loss))"
  by (auto simp: taped_loss_def split: sum.splits)

lemma train_step_Inr:
  "train_step G d data s = (Inr r, s') \<longleftrightarrow>
     (\<exists>x y tp sp sl dl loss gs os' vs' ms' res.
        data = [x, y] \<and>
        fst (call (teacher d) (variables s) x False) = Inr tp \<and>
        taped d tp x y (variables s) = Inr (sp, sl, dl, loss) \<and>
        G (taped_loss d tp x y) (variables s) (trainable_variables (student d)) = Inr gs \<and>
        apply_gradients (optimizer d) (zip gs (trainable_variables (student d)))
          (optimizer_state s) (snd (call (student d) (variables s) x True)) = (None, os', vs') \<and>
        update_state (compiled_metrics d) y sp (metrics_state s) = (None, ms') \<and>
        metric_results (metrics d) ms' Map.empty = Inr res \<and>
        r = res ++ [''student_loss'' \<mapsto> sl, ''distillation_loss'' \<mapsto> dl] \<and>
        s' = s\<lparr>variables := vs', optimizer_state := os', metrics_state := ms'\<rparr>)"
  by (auto simp: train_step_def Let_def split: list.splits sum.splits prod.splits option.splits)

lemma train_step_Inl:
  "train_step G d data s = (Inl e, s') \<longleftrightarrow>
     ((\<forall>x y. data \<noteq> [x, y]) \<and> e = Unpack_ValueError \<and> s' = s) \<or>
     (\<exists>x y e'. data = [x, y] \<and> e = Raised e' \<and>
        ((fst (call (teacher d) (variables s) x False) = Inl e' \<and> s' = s) \<or>
         (\<exists>tp. fst (call (teacher d) (variables s) x False) = Inr tp \<and>
            ((taped d tp x y (variables s) = Inl e' \<and>
              s' = s\<lparr>variables := snd (call (student d) (variables s) x True)\<rparr>) \<or>
             (\<exists>sp sl dl loss. taped d tp x y (variables s) = Inr (sp, sl, dl, loss) \<and>
                ((G (taped_loss d tp x y) (variables s) (trainable_variables (student d)) = Inl e' \<and>
                  s' = s\<lparr>variables := snd (call (student d) (variables s) x True)\<rparr>) \<or>
                 (\<exists>gs os' vs'.
                    G (taped_loss d tp x y) (variables s) (trainable_variables (student d)) = Inr gs \<and>
                    ((apply_gradients (optimizer d) (zip gs (trainable_variables (student d)))
                        (optimizer_state s) (snd (call (student d) (variables s) x True))
                        = (Some e', os', vs') \<and>
                      s' = s\<lparr>variables := vs', optimizer_state := os'\<rparr>) \<or>
                     (apply_gradients (optimizer d) (zip gs (trainable_variables (student d)))
                        (optimizer_state s) (snd (call (student d) (variables s) x True))
                        = (None, os', vs') \<and>
                      (\<exists>ms'. s' = s\<lparr>variables := vs', optimizer_state := os', metrics_state := ms'\<rparr> \<and>
                         (update_state (compiled_metrics d) y sp (metrics_state s) = (Some e', ms') \<or>
                          (update_state (compiled_metrics d) y sp (metrics_state s) = (None, ms') \<and>
                           metric_results (metrics d) ms' Map.empty = Inl e'))))))))))))"
  by (auto simp: train_step_def Let_def split: list.splits sum.splits prod.splits option.splits)

lemma test_step_Inr:
  "test_step d data s = (Inr r, s') \<longleftrightarrow>
     (\<exists>x y yp sl ms' res.
        data = [x, y] \<and>
        fst (call (student d) (variables s) x False) = Inr yp \<and>
        student_loss_fn d y yp = Inr sl \<and>
        update_state (compiled_metrics d) y yp (metrics_state s) = (None, ms') \<and>
        metric_results (metrics d) ms' Map.empty = Inr res \<and>
        r = res ++ [''student_loss'' \<mapsto> sl] \<and>
        s' = s\<lparr>metrics_state := ms'\<rparr>)"
  by (auto simp: test_step_def Let_def split: list.splits sum.splits prod.splits option.splits)

lemma test_step_Inl:
  "test_step d data s = (Inl e, s') \<longleftrightarrow>
     ((\<forall>x y. data \<noteq> [x, y]) \<and> e = Unpack_ValueError \<and> s' = s) \<or>
     (\<exists>x y e'. data = [x, y] \<and> e = Raised e' \<and>
        ((fst (call (student d) (variables s) x False) = Inl e' \<and> s' = s) \<or>
         (\<exists>yp. fst (call (student d) (variables s) x False) = Inr yp \<and>
            ((student_loss_fn d y yp = Inl e' \<and> s' = s) \<or>
             (\<exists>sl ms'. student_loss_fn d y yp = Inr sl \<and> s' = s\<lparr>metrics_state := ms'\<rparr> \<and>
                (update_state (compiled_metrics d) y yp (metrics_state s) = (Some e', ms') \<or>
                 (update_state (compiled_metrics d) y yp (metrics_state s) = (None, ms') \<and>
                  metric_results (metrics d) ms' Map.empty = Inl e')))))))"
  by (auto simp: test_step_def Let_def split: list.splits sum.splits prod.splits option.splits)

subsection \<open>Metrics, the frame of a step, and what a step depends on\<close>

lemma metric_results_dom:
  "metric_results ms st r0 = Inr r \<Longrightarrow> dom r = dom r0 \<union> name ` set ms"
  by (induction ms arbitrary: r0) (auto split: sum.splits)

lemma metric_results_other:
  "metric_results ms st r0 = Inr r \<Longrightarrow> k \<notin> name ` set ms \<Longrightarrow> r k = r0 k"
  by (induction ms arbitrary: r0) (auto split: sum.splits)

lemma metric_results_entry:
  "metric_results ms st r0 = Inr r \<Longrightarrow> m \<in> set ms \<Longrightarrow>
   \<exists>m'\<in>set ms. name m' = name m \<and> (\<exists>v. result m' st = Inr v \<and> r (name m) = Some v)"
proof (induction ms arbitrary: r0 m)
  case Nil then show ?case by simp
next
  case (Cons a ms)
  then obtain v where v: "result a st = Inr v" and rest: "metric_results ms st (r0(name a \<mapsto> v)) = Inr r"
    by (auto split: sum.splits)
  show ?case
  proof (cases "name m \<in> name ` set ms")
    case True
    then obtain m2 where m2: "m2 \<in> set ms" "name m2 = name m" by auto
    obtain m' where "m' \<in> set ms" "name m' = name m2" "\<exists>v. result m' st = Inr v \<and> r (name m2) = Some v"
      using Cons.IH [OF rest m2(1)] by blast
    then show ?thesis using m2(2) by auto
  next
    case False
    then have "m = a" using Cons.prems(2) by auto
    moreover have "r (name a) = Some v" using metric_results_other [OF rest] False \<open>m = a\<close> by simp
    ultimately show ?thesis using v by auto
  qed
qed

lemma metric_results_Inl:
  "metric_results ms st r0 = Inl e \<Longrightarrow> \<exists>m\<in>set ms. result m st = Inl e"
  by (induction ms arbitrary: r0) (auto split: sum.splits)

lemma train_step_frame:
  assumes "writes_only_given (apply_gradients (optimizer d))"
    and "assigns_own_weights (student d)"
    and "v \<notin> set (trainable_variables (student d)) \<union> set (weights (student d))"
  shows "variables (snd (train_step G d data s)) v = variables s v"
proof -
  have w: "vs' v = vs v"
    if "apply_gradients (optimizer d) (zip gs (trainable_variables (student d))) os vs = (raised, os', vs')"
    for gs os vs raised os' vs'
  proof -
    have "v \<notin> snd ` set (zip gs (trainable_variables (student d)))"
      using assms(3) by (auto dest: set_zip_rightD)
    then have "snd (snd (apply_gradients (optimizer d) (zip gs (trainable_variables (student d))) os vs)) v = vs v"
      using assms(1) by (simp add: writes_only_given_def)
    then show ?thesis using that by simp
  qed
  have t: "snd (forward_training (student d) vs x) v = vs v" for vs x
    using assms(2,3) by (simp add: assigns_own_weights_def)
  obtain out s' where st: "train_step G d data s = (out, s')"
    by (cases "train_step G d data s")
  have "variables s' v = variables s v"
  proof (cases out)
    case (Inl e)
    then have "train_step G d data s = (Inl e, s')" using st by simp
    then show ?thesis unfolding train_step_Inl by (auto dest: w simp: t)
  next
    case (Inr r)
    then have "train_step G d data s = (Inr r, s')" using st by simp
    then show ?thesis unfolding train_step_Inr by (auto dest: w simp: t)
  qed
  then show ?thesis by (simp add: st)
qed

lemma taped_teacher_irrelevant: "taped (d\<lparr>teacher := t'\<rparr>) = taped d"
  by (simp add: taped_def fun_eq_iff split: sum.splits)

lemma taped_loss_teacher_irrelevant: "taped_loss (d\<lparr>teacher := t'\<rparr>) = taped_loss d"
  by (simp add: taped_loss_def fun_eq_iff taped_teacher_irrelevant)

lemma metrics_teacher_irrelevant: "metrics (d\<lparr>teacher := t'\<rparr>) = metrics d"
  by (simp add: metrics_def)

lemma train_step_teacher_inference_only:
  assumes "call t' (variables s) x False = call (teacher d) (variables s) x False"
  shows "train_step G (d\<lparr>teacher := t'\<rparr>) [x, y] s = train_step G d [x, y] s"
  using assms
  by (simp add: train_step_def Let_def taped_teacher_irrelevant taped_loss_teacher_irrelevant
      metrics_teacher_irrelevant split: sum.splits prod.splits option.splits)

lemma train_step_gradient_of_student_variables:
  assumes "fst (call (teacher d) (variables s) x False) = Inr tp"
    and "G' (taped_loss d tp x y) (variables s) (trainable_variables (student d)) =
         G (taped_loss d tp x y) (variables s) (trainable_variables (student d))"
  shows "train_step G' d [x, y] s = train_step G d [x, y] s"
  using assms by (simp add: train_step_def Let_def split: sum.splits prod.splits)

lemma sgd_writes_only_given: "writes_only_given (apply_gradients sgd)"
proof -
  have "fold (\<lambda>gv vs'. vs'(snd gv := fl_sub (vs' (snd gv)) (fst gv))) gvs vs v = vs v"
    if "v \<notin> snd ` set gvs" for gvs :: "(fl \<times> var) list" and vs v
    using that by (induction gvs arbitrary: vs) auto
  then show ?thesis by (simp add: writes_only_given_def sgd_def)
qed

lemma toy_student_assigns_own_weights: "assigns_own_weights toy_student"
  by (simp add: assigns_own_weights_def toy_student_def)

subsection \<open>The small instance, run\<close>

lemma softmax_row_shift:
  "softmax_row [Fin (a + c), Fin a] = [Fin (exp c / (exp c + 1)), Fin (1 / (exp c + 1))]"
proof -
  have pos: "0 < exp a" "0 < exp c + 1" by (simp_all add: add_pos_pos)
  have s: "exp (a + c) + exp a = exp a * (exp c + 1)" by (simp add: exp_add algebra_simps)
  have nz: "exp (a + c) + exp a \<noteq> 0" using pos by (simp add: s)
  have q1: "exp (a + c) / (exp (a + c) + exp a) = exp c / (exp c + 1)"
    unfolding s using pos by (simp add: exp_add)
  have q2: "exp a / (exp (a + c) + exp a) = 1 / (exp c + 1)"
    unfolding s using pos by simp
  show ?thesis using nz q1 q2 by (simp add: softmax_row_def Let_def fl_sum_def)
qed

lemma toy_softened_student:
  assumes "t \<noteq> 0"
  shows "softened t [[Fin (w * x + t * ln 2), Fin (w * x)]] = [[Fin (2 / 3), Fin (1 / 3)]]"
proof -
  have "(w * x + t * ln 2) / t = w * x / t + ln 2" using assms by (simp add: add_divide_distrib)
  then have "truediv [[Fin (w * x + t * ln 2), Fin (w * x)]] t = [[Fin (w * x / t + ln 2), Fin (w * x / t)]]"
    using assms by (simp add: truediv_def)
  then show ?thesis
    using softmax_row_shift [of "w * x / t" "ln 2"] by (simp add: softened_def softmax_axis1_def)
qed

lemma toy_softened_teacher:
  assumes "t \<noteq> 0"
  shows "softened t [[Fin (t * ln 3), Fin 0]] = [[Fin (3 / 4), Fin (1 / 4)]]"
proof -
  have "truediv [[Fin (t * ln 3), Fin 0]] t = [[Fin (0 + ln 3), Fin 0]]"
    using assms by (simp add: truediv_def)
  then show ?thesis
    using softmax_row_shift [of 0 "ln 3"] by (simp add: softened_def softmax_axis1_def)
qed

lemmas toy_objects = compile_def Distiller_def toy_student_def toy_teacher_def sgd_def
  toy_metrics_def toy_student_loss_def toy_distillation_loss_def toy_state_def metrics_def

lemma toy_taped:
  assumes "t \<noteq> 0"
  shows "taped (compile (Distiller toy_student toy_teacher) sgd ms
           toy_student_loss toy_distillation_loss (Some a) (Some t))
           [[Fin (t * ln 3), Fin 0]] x y ((variables (toy_state t))(0 := Fin w))
     = Inr ([[Fin (w * x + t * ln 2), Fin (w * x)]], Fin (w * x + t * ln 2 - y), Fin (25 / 12),
            Fin (a * (w * x + t * ln 2 - y) + (1 - a) * (25 / 12)))"
  unfolding taped_Inr
  using toy_softened_student [OF assms, of w x] toy_softened_teacher [OF assms]
  by (simp add: toy_objects fl_sub_def)

lemma toy_taped_loss:
  assumes "t \<noteq> 0"
  shows "taped_loss (compile (Distiller toy_student toy_teacher) sgd ms
           toy_student_loss toy_distillation_loss (Some a) (Some t))
           [[Fin (t * ln 3), Fin 0]] x y ((variables (toy_state t))(0 := Fin w))
     = Inr (Fin (a * (w * x + t * ln 2 - y) + (1 - a) * (25 / 12)))"
  by (simp add: taped_loss_def toy_taped [OF assms])

text \<open>\<open>toy_gradient\<close> is the derivative of the taped loss by the student's weight.\<close>

lemma toy_gradient_is_derivative:
  assumes "t \<noteq> 0"
  shows "((\<lambda>w. the_fin (lossval (taped_loss (compile (Distiller toy_student toy_teacher) sgd ms
              toy_student_loss toy_distillation_loss (Some a) (Some t))
              [[Fin (t * ln 3), Fin 0]] x y ((variables (toy_state t))(0 := Fin w)))))
           has_real_derivative a * x) (at w0)"
    and "toy_gradient (taped_loss (compile (Distiller toy_student toy_teacher) sgd ms
              toy_student_loss toy_distillation_loss (Some a) (Some t)) [[Fin (t * ln 3), Fin 0]] x y)
           ((variables (toy_state t))(0 := Fin w0)) [0] = Inr [Fin (a * x)]"
proof -
  show "((\<lambda>w. the_fin (lossval (taped_loss (compile (Distiller toy_student toy_teacher) sgd ms
              toy_student_loss toy_distillation_loss (Some a) (Some t))
              [[Fin (t * ln 3), Fin 0]] x y ((variables (toy_state t))(0 := Fin w)))))
           has_real_derivative a * x) (at w0)"
    unfolding toy_taped_loss [OF assms]
    by (auto intro!: derivative_eq_intros)
  have "toy_gradient (taped_loss (compile (Distiller toy_student toy_teacher) sgd ms
              toy_student_loss toy_distillation_loss (Some a) (Some t)) [[Fin (t * ln 3), Fin 0]] x y)
           ((variables (toy_state t))(0 := Fin w0)) [0]
        = Inr [fl_sub (Fin (a * ((w0 + 1) * x + t * ln 2 - y) + (1 - a) * (25 / 12)))
                      (Fin (a * (w0 * x + t * ln 2 - y) + (1 - a) * (25 / 12)))]"
    using toy_taped_loss [OF assms, of ms a x y "w0 + 1"] toy_taped_loss [OF assms, of ms a x y w0]
    by (simp add: toy_gradient_def)
  then show "toy_gradient (taped_loss (compile (Distiller toy_student toy_teacher) sgd ms
              toy_student_loss toy_distillation_loss (Some a) (Some t)) [[Fin (t * ln 3), Fin 0]] x y)
           ((variables (toy_state t))(0 := Fin w0)) [0] = Inr [Fin (a * x)]"
    by (simp add: fl_sub_def algebra_simps)
qed

lemma toy_state_weight: "(variables (toy_state t))(0 := Fin 1) = variables (toy_state t)"
  by (auto simp: toy_state_def)

text \<open>The step of the instance on the batch \<open>[10, y]\<close>, for any metrics: up to the
  update of the metrics, and from there on.\<close>

lemma toy_train_step_metrics:
  assumes "t \<noteq> 0"
  shows "train_step toy_gradient
           (compile (Distiller toy_student toy_teacher) sgd ms
              toy_student_loss toy_distillation_loss (Some a) (Some t)) [10, y] (toy_state t)
     = (case update_state ms y [[Fin (10 + t * ln 2), Fin 10]] 0 of
          (Some e, n) \<Rightarrow>
            (Inl (Raised e),
             \<lparr>variables = (variables (toy_state t))(3 := Fin 10, 0 := Fin (1 - a * 10)),
              optimizer_state = 1, metrics_state = n\<rparr>)
        | (None, n) \<Rightarrow>
            (case metric_results (members ms) n Map.empty of
               Inl e \<Rightarrow>
                 (Inl (Raised e),
                  \<lparr>variables = (variables (toy_state t))(3 := Fin 10, 0 := Fin (1 - a * 10)),
                   optimizer_state = 1, metrics_state = n\<rparr>)
             | Inr res \<Rightarrow>
                 (Inr (res ++ [''student_loss'' \<mapsto> Fin (10 + t * ln 2 - y),
                               ''distillation_loss'' \<mapsto> Fin (25 / 12)]),
                  \<lparr>variables = (variables (toy_state t))(3 := Fin 10, 0 := Fin (1 - a * 10)),
                   optimizer_state = 1, metrics_state = n\<rparr>)))"
proof -
  let ?d = "compile (Distiller toy_student toy_teacher) sgd ms
              toy_student_loss toy_distillation_loss (Some a) (Some t)"
  have tp: "call (teacher ?d) (variables (toy_state t)) 10 False
      = (Inr [[Fin (t * ln 3), Fin 0]], variables (toy_state t))"
    by (simp add: toy_objects)
  have tape: "taped ?d [[Fin (t * ln 3), Fin 0]] 10 y (variables (toy_state t))
      = Inr ([[Fin (10 + t * ln 2), Fin 10]], Fin (10 + t * ln 2 - y), Fin (25 / 12),
             Fin (a * (10 + t * ln 2 - y) + (1 - a) * (25 / 12)))"
    using toy_taped [OF assms, of ms a 10 y 1] by (simp add: toy_state_weight)
  have grad: "toy_gradient (taped_loss ?d [[Fin (t * ln 3), Fin 0]] 10 y) (variables (toy_state t))
      (trainable_variables (student ?d)) = Inr [Fin (a * 10)]"
    using toy_gradient_is_derivative(2) [OF assms, of ms a 10 y 1]
    by (simp add: toy_state_weight compile_def Distiller_def toy_student_def)
  have sn: "snd (call (student ?d) (variables (toy_state t)) 10 True)
      = (variables (toy_state t))(3 := Fin 10)"
    by (simp add: toy_objects)
  have upd: "apply_gradients (optimizer ?d) (zip [Fin (a * 10)] (trainable_variables (student ?d)))
      (optimizer_state (toy_state t)) ((variables (toy_state t))(3 := Fin 10))
      = (None, 1, (variables (toy_state t))(3 := Fin 10, 0 := Fin (1 - a * 10)))"
    by (simp add: toy_objects fl_sub_def)
  have f: "compiled_metrics ?d = ms" "metrics ?d = members ms"
    "metrics_state (toy_state t) = 0"
    by (simp_all add: compile_def metrics_def toy_state_def)
  show ?thesis
    by (simp add: train_step_def Let_def tp tape grad sn upd f del: call_inference call_training
        split: sum.splits prod.splits option.splits)
qed

lemma toy_train_step:
  assumes "t \<noteq> 0"
  shows "train_step toy_gradient
           (compile (Distiller toy_student toy_teacher) sgd toy_metrics
              toy_student_loss toy_distillation_loss (Some a) (Some t)) [10, y] (toy_state t)
     = (Inr [''accuracy'' \<mapsto> Fin 1, ''student_loss'' \<mapsto> Fin (10 + t * ln 2 - y),
             ''distillation_loss'' \<mapsto> Fin (25 / 12)],
        \<lparr>variables = (variables (toy_state t))(3 := Fin 10, 0 := Fin (1 - a * 10)),
           optimizer_state = 1, metrics_state = 1\<rparr>)"
  unfolding toy_train_step_metrics [OF assms]
  by (simp add: toy_metrics_def fun_eq_iff)

lemma toy_test_step:
  "test_step (compile (Distiller toy_student toy_teacher) sgd toy_metrics
              toy_student_loss toy_distillation_loss a t) [10, y] (toy_state u)
     = (Inr [''accuracy'' \<mapsto> Fin 1, ''student_loss'' \<mapsto> Fin (10 + u * ln 2 - y)],
        \<lparr>variables = variables (toy_state u), optimizer_state = 0, metrics_state = 1\<rparr>)"
  by (simp add: test_step_def toy_objects fl_sub_def fun_eq_iff)

subsection \<open>Data preparation\<close>

text \<open>
  C5. After \<open>x.astype('float32') / 255.0\<close> and \<open>np.reshape(x, (-1, 28, 28, 1))\<close> an
  array of bytes of shape \<open>(n, 28, 28)\<close> is an array of shape \<open>(n, 28, 28, 1)\<close> with
  the same batch dimension \<open>n\<close>; its elements are the bytes divided by 255, in the same
  order, and lie in \<open>[0, 1]\<close>. The rounding of the division to \<open>float32\<close> is any
  monotone function that keeps 0 and 1, as rounding to nearest is.
\<close>

theorem normalize_images_range_and_shape:
  assumes mono: "mono rnd" and r0: "rnd 0 = 0" and r1: "rnd 1 = 1"
    and ws: "well_shaped x" and sh: "shape x = [n, 28, 28]"
  shows "\<exists>x'. normalize_images rnd x = Inr x' \<and> shape x' = [n, 28, 28, 1] \<and> well_shaped x' \<and>
     elems x' = map (\<lambda>b. rnd (real (unat b) / 255)) (elems x) \<and>
     (\<forall>v \<in> set (elems x'). 0 \<le> v \<and> v \<le> 1)"
proof -
  have len: "length (elems x) = n * 784"
    using ws sh by (simp add: well_shaped_def size_of_def)
  let ?x' = "\<lparr>shape = [n, 28, 28, 1], elems = map (\<lambda>b. rnd (real (unat b) / 255)) (elems x)\<rparr>"
  have "normalize_images rnd x = Inr ?x'"
    using len
    by (simp add: normalize_images_def reshape_def divide_scalar_def astype_float32_def Let_def comp_def)
  moreover have "0 \<le> rnd (real (unat b) / 255) \<and> rnd (real (unat b) / 255) \<le> 1" for b :: "8 word"
  proof -
    define u where "u = unat b"
    have "u < 256" using unsigned_less [of b, where ?'a = nat] by (simp add: u_def)
    then have "0 \<le> real u / 255" "real u / 255 \<le> 1" by simp_all
    then have "rnd 0 \<le> rnd (real u / 255)" "rnd (real u / 255) \<le> rnd 1"
      using monoD [OF mono] by blast+
    then show ?thesis by (simp add: r0 r1 u_def)
  qed
  ultimately show ?thesis using len by (auto simp: well_shaped_def size_of_def)
qed

theorem normalize_images_witness:
  "normalize_images (\<lambda>v. v) \<lparr>shape = [1, 28, 28], elems = replicate 784 255\<rparr> =
     Inr \<lparr>shape = [1, 28, 28, 1], elems = replicate 784 1\<rparr>"
  using normalize_images_range_and_shape
    [of "\<lambda>v. v" "\<lparr>shape = [1, 28, 28], elems = replicate 784 255\<rparr>" 1]
  by (auto simp: mono_def well_shaped_def size_of_def)

subsection \<open>\<open>compile\<close>\<close>



lemma toy_defaults:
  "compile (Distiller toy_student toy_teacher) sgd toy_metrics toy_student_loss
     toy_distillation_loss None None
   = compile (Distiller toy_student toy_teacher) sgd toy_metrics toy_student_loss
     toy_distillation_loss (Some (1 / 10)) (Some 3)"
  by (simp add: compile_def)

text \<open>
  C10. \<open>compile\<close> keeps the teacher and the student and stores optimiser, metrics,
  both loss functions, \<open>alpha\<close> and \<open>temperature\<close> as passed, with \<open>alpha = 0.1\<close> and
  \<open>temperature = 3\<close> for an omitted argument. The steps of the compiled Distiller work
  with exactly these values: \<open>train_step\<close> returns precisely when the forward passes of
  the stored teacher and student, the stored loss functions on the tensors softened with
  the stored temperature, \<open>tape.gradient\<close> of the loss weighted with the stored
  \<open>alpha\<close>, the stored optimiser and the stored metrics all succeed, and its result
  and state are theirs; likewise \<open>test_step\<close> with the stored student, student loss
  and metrics.
\<close>

theorem compile_stores_arguments:
  "teacher (compile self opt ms slf dlf a t) = teacher self \<and>
   student (compile self opt ms slf dlf a t) = student self \<and>
   optimizer (compile self opt ms slf dlf a t) = opt \<and>
   compiled_metrics (compile self opt ms slf dlf a t) = ms \<and>
   metrics (compile self opt ms slf dlf a t) = members ms \<and>
   student_loss_fn (compile self opt ms slf dlf a t) = slf \<and>
   distillation_loss_fn (compile self opt ms slf dlf a t) = dlf \<and>
   alpha (compile self opt ms slf dlf a t) = (case a of None \<Rightarrow> 1 / 10 | Some av \<Rightarrow> av) \<and>
   temperature (compile self opt ms slf dlf a t) = (case t of None \<Rightarrow> 3 | Some tv \<Rightarrow> tv) \<and>
   (taped_loss (compile self opt ms slf dlf a t) tp x y vs = Inr loss \<longleftrightarrow>
      (\<exists>sp sl dl.
         fst (call (student self) vs x True) = Inr sp \<and> slf y sp = Inr sl \<and>
         dlf (softmax_axis1 (truediv tp (case t of None \<Rightarrow> 3 | Some tv \<Rightarrow> tv)))
             (softmax_axis1 (truediv sp (case t of None \<Rightarrow> 3 | Some tv \<Rightarrow> tv))) = Inr dl \<and>
         loss = fl_add (fl_mul (Fin (case a of None \<Rightarrow> 1 / 10 | Some av \<Rightarrow> av)) sl)
                       (fl_mul (Fin (1 - (case a of None \<Rightarrow> 1 / 10 | Some av \<Rightarrow> av))) dl))) \<and>
   (train_step G (compile self opt ms slf dlf a t) data s = (Inr r, s') \<longleftrightarrow>
      (\<exists>x y tp sp sl dl gs os' vs' ms' res.
         data = [x, y] \<and>
         fst (call (teacher self) (variables s) x False) = Inr tp \<and>
         fst (call (student self) (variables s) x True) = Inr sp \<and>
         slf y sp = Inr sl \<and>
         dlf (softmax_axis1 (truediv tp (case t of None \<Rightarrow> 3 | Some tv \<Rightarrow> tv)))
             (softmax_axis1 (truediv sp (case t of None \<Rightarrow> 3 | Some tv \<Rightarrow> tv))) = Inr dl \<and>
         G (taped_loss (compile self opt ms slf dlf a t) tp x y) (variables s)
           (trainable_variables (student self)) = Inr gs \<and>
         apply_gradients opt (zip gs (trainable_variables (student self)))
           (optimizer_state s) (snd (call (student self) (variables s) x True)) = (None, os', vs') \<and>
         update_state ms y sp (metrics_state s) = (None, ms') \<and>
         metric_results (members ms) ms' Map.empty = Inr res \<and>
         r = res ++ [''student_loss'' \<mapsto> sl, ''distillation_loss'' \<mapsto> dl] \<and>
         s' = s\<lparr>variables := vs', optimizer_state := os', metrics_state := ms'\<rparr>)) \<and>
   (test_step (compile self opt ms slf dlf a t) data s = (Inr r', s'') \<longleftrightarrow>
      (\<exists>x y yp sl ms' res.
         data = [x, y] \<and>
         fst (call (student self) (variables s) x False) = Inr yp \<and>
         slf y yp = Inr sl \<and>
         update_state ms y yp (metrics_state s) = (None, ms') \<and>
         metric_results (members ms) ms' Map.empty = Inr res \<and>
         r' = res ++ [''student_loss'' \<mapsto> sl] \<and>
         s'' = s\<lparr>metrics_state := ms'\<rparr>))"
proof -
  let ?d = "compile self opt ms slf dlf a t"
  have f: "teacher ?d = teacher self" "student ?d = student self" "optimizer ?d = opt"
    "compiled_metrics ?d = ms" "metrics ?d = members ms" "student_loss_fn ?d = slf"
    "distillation_loss_fn ?d = dlf"
    "alpha ?d = (case a of None \<Rightarrow> 1 / 10 | Some av \<Rightarrow> av)"
    "temperature ?d = (case t of None \<Rightarrow> 3 | Some tv \<Rightarrow> tv)"
    by (simp_all add: compile_def metrics_def)
  have tl: "taped_loss ?d tp x y vs = Inr loss \<longleftrightarrow>
      (\<exists>sp sl dl.
         fst (call (student self) vs x True) = Inr sp \<and> slf y sp = Inr sl \<and>
         dlf (softmax_axis1 (truediv tp (case t of None \<Rightarrow> 3 | Some tv \<Rightarrow> tv)))
             (softmax_axis1 (truediv sp (case t of None \<Rightarrow> 3 | Some tv \<Rightarrow> tv))) = Inr dl \<and>
         loss = fl_add (fl_mul (Fin (case a of None \<Rightarrow> 1 / 10 | Some av \<Rightarrow> av)) sl)
                       (fl_mul (Fin (1 - (case a of None \<Rightarrow> 1 / 10 | Some av \<Rightarrow> av))) dl))"
    unfolding taped_loss_Inr taped_Inr f softened_def by blast
  have tr: "train_step G ?d data s = (Inr r, s') \<longleftrightarrow>
      (\<exists>x y tp sp sl dl gs os' vs' ms' res.
         data = [x, y] \<and>
         fst (call (teacher self) (variables s) x False) = Inr tp \<and>
         fst (call (student self) (variables s) x True) = Inr sp \<and>
         slf y sp = Inr sl \<and>
         dlf (softmax_axis1 (truediv tp (case t of None \<Rightarrow> 3 | Some tv \<Rightarrow> tv)))
             (softmax_axis1 (truediv sp (case t of None \<Rightarrow> 3 | Some tv \<Rightarrow> tv))) = Inr dl \<and>
         G (taped_loss ?d tp x y) (variables s) (trainable_variables (student self)) = Inr gs \<and>
         apply_gradients opt (zip gs (trainable_variables (student self)))
           (optimizer_state s) (snd (call (student self) (variables s) x True)) = (None, os', vs') \<and>
         update_state ms y sp (metrics_state s) = (None, ms') \<and>
         metric_results (members ms) ms' Map.empty = Inr res \<and>
         r = res ++ [''student_loss'' \<mapsto> sl, ''distillation_loss'' \<mapsto> dl] \<and>
         s' = s\<lparr>variables := vs', optimizer_state := os', metrics_state := ms'\<rparr>)"
    unfolding train_step_Inr taped_Inr f softened_def by blast
  have te: "test_step ?d data s = (Inr r', s'') \<longleftrightarrow>
      (\<exists>x y yp sl ms' res.
         data = [x, y] \<and>
         fst (call (student self) (variables s) x False) = Inr yp \<and>
         slf y yp = Inr sl \<and>
         update_state ms y yp (metrics_state s) = (None, ms') \<and>
         metric_results (members ms) ms' Map.empty = Inr res \<and>
         r' = res ++ [''student_loss'' \<mapsto> sl] \<and>
         s'' = s\<lparr>metrics_state := ms'\<rparr>)"
    unfolding test_step_Inr f by blast
  show ?thesis using f tl tr te by blast
qed

theorem compile_stores_arguments_witness:
  "train_step toy_gradient
     (compile (Distiller toy_student toy_teacher) sgd toy_metrics toy_student_loss
        toy_distillation_loss None None) [10, 7] (toy_state 3)
   = (Inr [''accuracy'' \<mapsto> Fin 1, ''student_loss'' \<mapsto> Fin (3 + 3 * ln 2),
           ''distillation_loss'' \<mapsto> Fin (25 / 12)],
      \<lparr>variables = (variables (toy_state 3))(3 := Fin 10, 0 := Fin 0),
       optimizer_state = 1, metrics_state = 1\<rparr>) \<and>
   alpha (compile (Distiller toy_student toy_teacher) sgd toy_metrics toy_student_loss
        toy_distillation_loss None None) = 1 / 10 \<and>
   temperature (compile (Distiller toy_student toy_teacher) sgd toy_metrics toy_student_loss
        toy_distillation_loss None None) = 3"
proof -
  let ?d = "compile (Distiller toy_student toy_teacher) sgd toy_metrics toy_student_loss
        toy_distillation_loss None None"
  note c = compile_stores_arguments [of "Distiller toy_student toy_teacher" sgd toy_metrics
      toy_student_loss toy_distillation_loss None None]
  have a: "alpha ?d = 1 / 10" and t: "temperature ?d = 3"
    using c by simp_all
  have "train_step toy_gradient ?d [10, 7] (toy_state 3)
   = (Inr [''accuracy'' \<mapsto> Fin 1, ''student_loss'' \<mapsto> Fin (10 + 3 * ln 2 - 7),
           ''distillation_loss'' \<mapsto> Fin (25 / 12)],
      \<lparr>variables = (variables (toy_state 3))(3 := Fin 10, 0 := Fin (1 - (1 / 10) * 10)),
       optimizer_state = 1, metrics_state = 1\<rparr>)"
    unfolding toy_defaults by (rule toy_train_step) simp
  then show ?thesis using a t by simp
qed

subsection \<open>\<open>train_step\<close>: the loss\<close>

text \<open>
  C1. The loss that \<open>train_step\<close> differentiates is
  \<open>alpha * student_loss + (1 - alpha) * distillation_loss\<close>, with
  \<open>student_loss = student_loss_fn(y, student_predictions)\<close> and
  \<open>distillation_loss = distillation_loss_fn(softmax(teacher_predictions / temperature),
  softmax(student_predictions / temperature))\<close>: the taped computation returns exactly
  this value (and returns exactly when the student's forward pass and both loss functions
  do); on finite numbers it is the weighted sum of real arithmetic; and \<open>train_step\<close>
  returns exactly when all its calls succeed, \<open>tape.gradient\<close> being called on this
  loss and the student's trainable variables, the two losses being the ones reported.
\<close>

theorem total_loss_is_weighted_sum:
  "(taped_loss d tp x y vs = Inr loss \<longleftrightarrow>
      (\<exists>sp sl dl.
         fst (call (student d) vs x True) = Inr sp \<and>
         student_loss_fn d y sp = Inr sl \<and>
         distillation_loss_fn d (softmax_axis1 (truediv tp (temperature d)))
                                (softmax_axis1 (truediv sp (temperature d))) = Inr dl \<and>
         loss = fl_add (fl_mul (Fin (alpha d)) sl) (fl_mul (Fin (1 - alpha d)) dl))) \<and>
   fl_add (fl_mul (Fin a) (Fin u)) (fl_mul (Fin (1 - a)) (Fin w)) = Fin (a * u + (1 - a) * w) \<and>
   (train_step G d data s = (Inr r, s') \<longleftrightarrow>
      (\<exists>x' y' tp' sp sl dl gs os' vs' ms' res.
         data = [x', y'] \<and>
         fst (call (teacher d) (variables s) x' False) = Inr tp' \<and>
         fst (call (student d) (variables s) x' True) = Inr sp \<and>
         student_loss_fn d y' sp = Inr sl \<and>
         distillation_loss_fn d (softmax_axis1 (truediv tp' (temperature d)))
                                (softmax_axis1 (truediv sp (temperature d))) = Inr dl \<and>
         taped_loss d tp' x' y' (variables s)
           = Inr (fl_add (fl_mul (Fin (alpha d)) sl) (fl_mul (Fin (1 - alpha d)) dl)) \<and>
         G (taped_loss d tp' x' y') (variables s) (trainable_variables (student d)) = Inr gs \<and>
         apply_gradients (optimizer d) (zip gs (trainable_variables (student d)))
           (optimizer_state s) (snd (call (student d) (variables s) x' True)) = (None, os', vs') \<and>
         update_state (compiled_metrics d) y' sp (metrics_state s) = (None, ms') \<and>
         metric_results (metrics d) ms' Map.empty = Inr res \<and>
         r = res ++ [''student_loss'' \<mapsto> sl, ''distillation_loss'' \<mapsto> dl] \<and>
         s' = s\<lparr>variables := vs', optimizer_state := os', metrics_state := ms'\<rparr>))"
proof (intro conjI)
  show "taped_loss d tp x y vs = Inr loss \<longleftrightarrow>
      (\<exists>sp sl dl.
         fst (call (student d) vs x True) = Inr sp \<and>
         student_loss_fn d y sp = Inr sl \<and>
         distillation_loss_fn d (softmax_axis1 (truediv tp (temperature d)))
                                (softmax_axis1 (truediv sp (temperature d))) = Inr dl \<and>
         loss = fl_add (fl_mul (Fin (alpha d)) sl) (fl_mul (Fin (1 - alpha d)) dl))"
    unfolding taped_loss_Inr taped_Inr softened_def by blast
  show "fl_add (fl_mul (Fin a) (Fin u)) (fl_mul (Fin (1 - a)) (Fin w)) = Fin (a * u + (1 - a) * w)"
    by simp
  show "train_step G d data s = (Inr r, s') \<longleftrightarrow>
      (\<exists>x' y' tp' sp sl dl gs os' vs' ms' res.
         data = [x', y'] \<and>
         fst (call (teacher d) (variables s) x' False) = Inr tp' \<and>
         fst (call (student d) (variables s) x' True) = Inr sp \<and>
         student_loss_fn d y' sp = Inr sl \<and>
         distillation_loss_fn d (softmax_axis1 (truediv tp' (temperature d)))
                                (softmax_axis1 (truediv sp (temperature d))) = Inr dl \<and>
         taped_loss d tp' x' y' (variables s)
           = Inr (fl_add (fl_mul (Fin (alpha d)) sl) (fl_mul (Fin (1 - alpha d)) dl)) \<and>
         G (taped_loss d tp' x' y') (variables s) (trainable_variables (student d)) = Inr gs \<and>
         apply_gradients (optimizer d) (zip gs (trainable_variables (student d)))
           (optimizer_state s) (snd (call (student d) (variables s) x' True)) = (None, os', vs') \<and>
         update_state (compiled_metrics d) y' sp (metrics_state s) = (None, ms') \<and>
         metric_results (metrics d) ms' Map.empty = Inr res \<and>
         r = res ++ [''student_loss'' \<mapsto> sl, ''distillation_loss'' \<mapsto> dl] \<and>
         s' = s\<lparr>variables := vs', optimizer_state := os', metrics_state := ms'\<rparr>)"
    unfolding train_step_Inr taped_loss_Inr taped_Inr softened_def by (simp; blast)
qed

text \<open>A run with unequal logits: the student's are \<open>10 + 10 * ln 2\<close> and \<open>10\<close>, the
  teacher's \<open>10 * ln 3\<close> and \<open>0\<close>, \<open>alpha = 0.1\<close>, \<open>temperature = 10\<close>, label 7.\<close>

theorem total_loss_witness:
  "taped_loss toy_distiller [[Fin (10 * ln 3), Fin 0]] 10 7 (variables (toy_state 10))
     = Inr (Fin (1 / 10 * (3 + 10 * ln 2) + 9 / 10 * (25 / 12))) \<and>
   train_step toy_gradient toy_distiller [10, 7] (toy_state 10)
     = (Inr [''accuracy'' \<mapsto> Fin 1, ''student_loss'' \<mapsto> Fin (3 + 10 * ln 2),
             ''distillation_loss'' \<mapsto> Fin (25 / 12)],
        \<lparr>variables = (variables (toy_state 10))(3 := Fin 10, 0 := Fin 0),
         optimizer_state = 1, metrics_state = 1\<rparr>)"
proof
  have sp: "fst (call (student toy_distiller) (variables (toy_state 10)) 10 True)
      = Inr [[Fin (10 + 10 * ln 2), Fin 10]]"
    by (simp add: toy_distiller_def toy_objects)
  have sl: "student_loss_fn toy_distiller 7 [[Fin (10 + 10 * ln 2), Fin 10]] = Inr (Fin (3 + 10 * ln 2))"
    by (simp add: toy_distiller_def toy_objects fl_sub_def)
  have dl: "distillation_loss_fn toy_distiller
      (softmax_axis1 (truediv [[Fin (10 * ln 3), Fin 0]] (temperature toy_distiller)))
      (softmax_axis1 (truediv [[Fin (10 + 10 * ln 2), Fin 10]] (temperature toy_distiller)))
      = Inr (Fin (25 / 12))"
    using toy_softened_teacher [of 10] toy_softened_student [of 10 1 10]
    by (simp add: toy_distiller_def toy_objects softened_def)
  have "\<exists>sp sl dl.
         fst (call (student toy_distiller) (variables (toy_state 10)) 10 True) = Inr sp \<and>
         student_loss_fn toy_distiller 7 sp = Inr sl \<and>
         distillation_loss_fn toy_distiller
           (softmax_axis1 (truediv [[Fin (10 * ln 3), Fin 0]] (temperature toy_distiller)))
           (softmax_axis1 (truediv sp (temperature toy_distiller))) = Inr dl \<and>
         Fin (1 / 10 * (3 + 10 * ln 2) + 9 / 10 * (25 / 12))
           = fl_add (fl_mul (Fin (alpha toy_distiller)) sl) (fl_mul (Fin (1 - alpha toy_distiller)) dl)"
    using sp sl dl by (simp add: toy_distiller_def compile_def)
  then show "taped_loss toy_distiller [[Fin (10 * ln 3), Fin 0]] 10 7 (variables (toy_state 10))
     = Inr (Fin (1 / 10 * (3 + 10 * ln 2) + 9 / 10 * (25 / 12)))"
    by (rule total_loss_is_weighted_sum [THEN conjunct1, THEN iffD2])
  show "train_step toy_gradient toy_distiller [10, 7] (toy_state 10)
     = (Inr [''accuracy'' \<mapsto> Fin 1, ''student_loss'' \<mapsto> Fin (3 + 10 * ln 2),
             ''distillation_loss'' \<mapsto> Fin (25 / 12)],
        \<lparr>variables = (variables (toy_state 10))(3 := Fin 10, 0 := Fin 0),
         optimizer_state = 1, metrics_state = 1\<rparr>)"
    using toy_train_step [of 10 "1 / 10" 7] by (simp add: toy_distiller_def)
qed

subsection \<open>\<open>train_step\<close>: the distillation loss\<close>








subsection \<open>\<open>test_step\<close>\<close>

text \<open>
  C9. \<open>test_step\<close> evaluates the student alone. Its outcome does not depend on the
  teacher, the distillation loss function, \<open>alpha\<close>, the temperature or the optimiser,
  and on the student only through its forward pass in inference mode. It changes no
  variable and not the optimiser's state, only the metrics' state. When it returns, the
  entry \<open>'student_loss'\<close> is \<open>student_loss_fn(y, y_prediction)\<close>.
\<close>

theorem test_step_evaluates_student_only:
  fixes d :: "('a, 'b, 'g, 'o, 'ms, 'c) distiller" and st' :: "('a, 'b, 'c) model"
  shows
  "test_step (d\<lparr>teacher := t', optimizer := opt', distillation_loss_fn := dlf',
               alpha := a', temperature := tmp'\<rparr>) data s = test_step d data s \<and>
   (call st' (variables s) x False = call (student d) (variables s) x False \<longrightarrow>
      test_step (d\<lparr>student := st'\<rparr>) [x, y] s = test_step d [x, y] s) \<and>
   variables (snd (test_step d data s)) = variables s \<and>
   optimizer_state (snd (test_step d data s)) = optimizer_state s \<and>
   (test_step d data s = (Inr r, s') \<longrightarrow>
      (\<exists>x' y' yp sl. data = [x', y'] \<and>
         call (student d) (variables s) x' False = (Inr yp, variables s) \<and>
         student_loss_fn d y' yp = Inr sl \<and> r ''student_loss'' = Some sl))"
proof (intro conjI impI)
  show "test_step (d\<lparr>teacher := t', optimizer := opt', distillation_loss_fn := dlf',
               alpha := a', temperature := tmp'\<rparr>) data s = test_step d data s"
    by (simp add: test_step_def Let_def metrics_def
        split: list.splits sum.splits prod.splits option.splits)
  show "test_step (d\<lparr>student := st'\<rparr>) [x, y] s = test_step d [x, y] s"
    if "call st' (variables s) x False = call (student d) (variables s) x False"
    using that
    by (simp add: test_step_def Let_def metrics_def call_def
        split: list.splits sum.splits prod.splits option.splits)
  show "variables (snd (test_step d data s)) = variables s"
    by (simp add: test_step_def Let_def split: list.splits sum.splits prod.splits option.splits)
  show "optimizer_state (snd (test_step d data s)) = optimizer_state s"
    by (simp add: test_step_def Let_def split: list.splits sum.splits prod.splits option.splits)
  show "\<exists>x' y' yp sl. data = [x', y'] \<and>
         call (student d) (variables s) x' False = (Inr yp, variables s) \<and>
         student_loss_fn d y' yp = Inr sl \<and> r ''student_loss'' = Some sl"
    if "test_step d data s = (Inr r, s')"
    using that unfolding test_step_Inr by (auto simp: call_def)
qed

text \<open>A run on the batch \<open>[10, 7]\<close>, for a student that differs from the instance's
  only in its list of trainable variables: the student's first logit is \<open>10 + 10 * ln 2\<close>,
  the label 7.\<close>

theorem test_step_witness:
  "test_step (toy_distiller\<lparr>student := toy_student\<lparr>trainable_variables := []\<rparr>\<rparr>) [10, 7] (toy_state 10)
     = (Inr [''accuracy'' \<mapsto> Fin 1, ''student_loss'' \<mapsto> Fin (3 + 10 * ln 2)],
        \<lparr>variables = variables (toy_state 10), optimizer_state = 0, metrics_state = 1\<rparr>) \<and>
   (\<exists>yp sl. call (student toy_distiller) (variables (toy_state 10)) 10 False
        = (Inr yp, variables (toy_state 10)) \<and>
      student_loss_fn toy_distiller 7 yp = Inr sl \<and>
      [''accuracy'' \<mapsto> Fin 1, ''student_loss'' \<mapsto> Fin (3 + 10 * ln 2)] ''student_loss'' = Some sl)"
proof
  have run: "test_step toy_distiller [10, 7] (toy_state 10)
     = (Inr [''accuracy'' \<mapsto> Fin 1, ''student_loss'' \<mapsto> Fin (3 + 10 * ln 2)],
        \<lparr>variables = variables (toy_state 10), optimizer_state = 0, metrics_state = 1\<rparr>)"
    using toy_test_step [of "Some (1 / 10)" "Some 10" 7 10] by (simp add: toy_distiller_def)
  have "call (toy_student\<lparr>trainable_variables := []\<rparr>) (variables (toy_state 10)) 10 False
      = call (student toy_distiller) (variables (toy_state 10)) 10 False"
    by (simp add: toy_distiller_def compile_def Distiller_def toy_student_def)
  then have "test_step (toy_distiller\<lparr>student := toy_student\<lparr>trainable_variables := []\<rparr>\<rparr>) [10, 7] (toy_state 10)
      = test_step toy_distiller [10, 7] (toy_state 10)"
    by (rule test_step_evaluates_student_only
        [THEN conjunct2, THEN conjunct1, THEN mp])
  then show "test_step (toy_distiller\<lparr>student := toy_student\<lparr>trainable_variables := []\<rparr>\<rparr>) [10, 7] (toy_state 10)
     = (Inr [''accuracy'' \<mapsto> Fin 1, ''student_loss'' \<mapsto> Fin (3 + 10 * ln 2)],
        \<lparr>variables = variables (toy_state 10), optimizer_state = 0, metrics_state = 1\<rparr>)"
    by (simp only: run)
  have "\<exists>x' y' yp sl. [10, 7] = [x', y'] \<and>
         call (student toy_distiller) (variables (toy_state 10)) x' False
           = (Inr yp, variables (toy_state 10)) \<and>
         student_loss_fn toy_distiller y' yp = Inr sl \<and>
         [''accuracy'' \<mapsto> Fin 1, ''student_loss'' \<mapsto> Fin (3 + 10 * ln 2)] ''student_loss'' = Some sl"
    by (rule test_step_evaluates_student_only
        [THEN conjunct2, THEN conjunct2, THEN conjunct2, THEN conjunct2, THEN mp, OF run])
  then show "\<exists>yp sl. call (student toy_distiller) (variables (toy_state 10)) 10 False
        = (Inr yp, variables (toy_state 10)) \<and>
      student_loss_fn toy_distiller 7 yp = Inr sl \<and>
      [''accuracy'' \<mapsto> Fin 1, ''student_loss'' \<mapsto> Fin (3 + 10 * ln 2)] ''student_loss'' = Some sl"
    by auto
qed

subsection \<open>\<open>train_step\<close>: what it assigns to\<close>

text \<open>The instance with one network in both roles.\<close>

lemma toy_alias_taped:
  "taped (compile (Distiller toy_student toy_student) sgd toy_metrics
           toy_student_loss toy_distillation_loss (Some (1 / 10)) (Some 10))
           [[Fin (10 + 10 * ln 2), Fin 10]] 10 7 ((variables (toy_state 10))(0 := Fin w))
     = Inr ([[Fin (w * 10 + 10 * ln 2), Fin (w * 10)]], Fin (w * 10 + 10 * ln 2 - 7), Fin 2,
            Fin (1 / 10 * (w * 10 + 10 * ln 2 - 7) + 9 / 10 * 2))"
  unfolding taped_Inr
  using toy_softened_student [of 10 w 10] toy_softened_student [of 10 1 10]
  by (simp add: toy_objects fl_sub_def)

lemma toy_alias_gradient:
  "toy_gradient (taped_loss (compile (Distiller toy_student toy_student) sgd toy_metrics
           toy_student_loss toy_distillation_loss (Some (1 / 10)) (Some 10))
           [[Fin (10 + 10 * ln 2), Fin 10]] 10 7) (variables (toy_state 10)) [0] = Inr [Fin 1]"
proof -
  have "toy_gradient (taped_loss (compile (Distiller toy_student toy_student) sgd toy_metrics
           toy_student_loss toy_distillation_loss (Some (1 / 10)) (Some 10))
           [[Fin (10 + 10 * ln 2), Fin 10]] 10 7) ((variables (toy_state 10))(0 := Fin 1)) [0]
      = Inr [fl_sub (Fin (1 / 10 * ((1 + 1) * 10 + 10 * ln 2 - 7) + 9 / 10 * 2))
                    (Fin (1 / 10 * (1 * 10 + 10 * ln 2 - 7) + 9 / 10 * 2))]"
    using toy_alias_taped [of "1 + 1"] toy_alias_taped [of 1]
    by (simp add: toy_gradient_def taped_loss_def)
  then show ?thesis
    by (simp add: fl_sub_def toy_state_weight diff_divide_distrib [symmetric])
qed

lemma toy_alias_train_step:
  "train_step toy_gradient
     (compile (Distiller toy_student toy_student) sgd toy_metrics
        toy_student_loss toy_distillation_loss (Some (1 / 10)) (Some 10)) [10, 7] (toy_state 10)
   = (Inr [''accuracy'' \<mapsto> Fin 1, ''student_loss'' \<mapsto> Fin (3 + 10 * ln 2),
           ''distillation_loss'' \<mapsto> Fin 2],
      \<lparr>variables = (variables (toy_state 10))(3 := Fin 10, 0 := Fin 0),
       optimizer_state = 1, metrics_state = 1\<rparr>)"
proof -
  let ?d = "compile (Distiller toy_student toy_student) sgd toy_metrics
        toy_student_loss toy_distillation_loss (Some (1 / 10)) (Some 10)"
  have tp: "fst (call (teacher ?d) (variables (toy_state 10)) 10 False)
      = Inr [[Fin (10 + 10 * ln 2), Fin 10]]"
    by (simp add: toy_objects)
  have tape: "taped ?d [[Fin (10 + 10 * ln 2), Fin 10]] 10 7 (variables (toy_state 10))
      = Inr ([[Fin (10 + 10 * ln 2), Fin 10]], Fin (3 + 10 * ln 2), Fin 2,
             Fin (1 / 10 * (3 + 10 * ln 2) + 9 / 10 * 2))"
    using toy_alias_taped [of 1] by (simp add: toy_state_weight)
  have grad: "toy_gradient (taped_loss ?d [[Fin (10 + 10 * ln 2), Fin 10]] 10 7)
      (variables (toy_state 10)) (trainable_variables (student ?d)) = Inr [Fin 1]"
    using toy_alias_gradient by (simp add: compile_def Distiller_def toy_student_def)
  have upd: "apply_gradients (optimizer ?d) (zip [Fin 1] (trainable_variables (student ?d)))
      (optimizer_state (toy_state 10)) (snd (call (student ?d) (variables (toy_state 10)) 10 True))
      = (None, 1, (variables (toy_state 10))(3 := Fin 10, 0 := Fin 0))"
    by (simp add: toy_objects fl_sub_def)
  have met: "update_state (compiled_metrics ?d) 7 [[Fin (10 + 10 * ln 2), Fin 10]]
      (metrics_state (toy_state 10)) = (None, 1)"
    by (simp add: toy_objects)
  have res: "metric_results (metrics ?d) 1 Map.empty = Inr [''accuracy'' \<mapsto> Fin 1]"
    by (simp add: toy_objects)
  have fin: "[''accuracy'' \<mapsto> Fin 1, ''student_loss'' \<mapsto> Fin (3 + 10 * ln 2),
           ''distillation_loss'' \<mapsto> Fin 2]
      = [''accuracy'' \<mapsto> Fin 1] ++ [''student_loss'' \<mapsto> Fin (3 + 10 * ln 2),
           ''distillation_loss'' \<mapsto> Fin 2]"
    by (simp add: fun_eq_iff)
  have st: "\<lparr>variables = (variables (toy_state 10))(3 := Fin 10, 0 := Fin 0),
       optimizer_state = 1, metrics_state = 1\<rparr>
      = (toy_state 10)\<lparr>variables := (variables (toy_state 10))(3 := Fin 10, 0 := Fin 0),
           optimizer_state := 1, metrics_state := 1\<rparr>"
    by (simp add: toy_state_def)
  show ?thesis
    unfolding train_step_Inr
    using tp tape grad upd met res fin st by blast
qed

text \<open>
  C3. \<open>train_step\<close> assigns only to variables of the student, given an optimiser that
  assigns only to the variables it is handed and a student whose forward pass in training
  mode assigns only to its own weights: a variable that is neither a trainable variable
  nor a weight of the student keeps its value, whether the step returns or raises, and so
  do the teacher's weights when the teacher shares none with the student. The step
  depends on the teacher only through its forward pass in inference mode, and on
  \<open>tape.gradient\<close> only through its value at the taped loss and the student's trainable
  variables; a returning step has applied the optimiser to exactly these gradients
  zipped with these variables, on the store as the student's forward pass left it.
\<close>

theorem train_step_updates_student_only:
  fixes d :: "('a, 'b, 'g, 'o, 'ms, 'c) distiller" and t' :: "('a, 'b, 'c) model"
  assumes "writes_only_given (apply_gradients (optimizer d))"
    and "assigns_own_weights (student d)"
  shows
  "(\<forall>v. v \<notin> set (trainable_variables (student d)) \<union> set (weights (student d)) \<longrightarrow>
      variables (snd (train_step G d data s)) v = variables s v) \<and>
   (set (weights (teacher d)) \<inter> (set (trainable_variables (student d)) \<union> set (weights (student d))) = {} \<longrightarrow>
      (\<forall>v\<in>set (weights (teacher d)). variables (snd (train_step G d data s)) v = variables s v)) \<and>
   (call t' (variables s) x False = call (teacher d) (variables s) x False \<longrightarrow>
      train_step G (d\<lparr>teacher := t'\<rparr>) [x, y] s = train_step G d [x, y] s) \<and>
   (fst (call (teacher d) (variables s) x False) = Inr tp \<and>
    G' (taped_loss d tp x y) (variables s) (trainable_variables (student d))
      = G (taped_loss d tp x y) (variables s) (trainable_variables (student d)) \<longrightarrow>
      train_step G' d [x, y] s = train_step G d [x, y] s) \<and>
   (train_step G d data s = (Inr r, s') \<longrightarrow>
      (\<exists>x' y' tp' gs.
         data = [x', y'] \<and>
         call (teacher d) (variables s) x' False = (Inr tp', variables s) \<and>
         G (taped_loss d tp' x' y') (variables s) (trainable_variables (student d)) = Inr gs \<and>
         apply_gradients (optimizer d) (zip gs (trainable_variables (student d)))
           (optimizer_state s) (snd (call (student d) (variables s) x' True))
           = (None, optimizer_state s', variables s')))"
proof (intro conjI impI allI ballI)
  show "variables (snd (train_step G d data s)) v = variables s v"
    if "v \<notin> set (trainable_variables (student d)) \<union> set (weights (student d))" for v
    using assms that by (rule train_step_frame)
  show "variables (snd (train_step G d data s)) v = variables s v"
    if "set (weights (teacher d)) \<inter> (set (trainable_variables (student d)) \<union> set (weights (student d))) = {}"
      and "v \<in> set (weights (teacher d))" for v
  proof -
    have "v \<notin> set (trainable_variables (student d)) \<union> set (weights (student d))"
      using that by blast
    with assms show ?thesis by (rule train_step_frame)
  qed
  show "train_step G (d\<lparr>teacher := t'\<rparr>) [x, y] s = train_step G d [x, y] s"
    if "call t' (variables s) x False = call (teacher d) (variables s) x False"
    using that by (rule train_step_teacher_inference_only)
  show "train_step G' d [x, y] s = train_step G d [x, y] s"
    if "fst (call (teacher d) (variables s) x False) = Inr tp \<and>
        G' (taped_loss d tp x y) (variables s) (trainable_variables (student d))
          = G (taped_loss d tp x y) (variables s) (trainable_variables (student d))"
    by (rule train_step_gradient_of_student_variables
          [where G' = G' and G = G, OF that [THEN conjunct1] that [THEN conjunct2]])
  show "\<exists>x' y' tp' gs.
         data = [x', y'] \<and>
         call (teacher d) (variables s) x' False = (Inr tp', variables s) \<and>
         G (taped_loss d tp' x' y') (variables s) (trainable_variables (student d)) = Inr gs \<and>
         apply_gradients (optimizer d) (zip gs (trainable_variables (student d)))
           (optimizer_state s) (snd (call (student d) (variables s) x' True))
           = (None, optimizer_state s', variables s')"
    if "train_step G d data s = (Inr r, s')"
    using that unfolding train_step_Inr by (auto simp: call_def)
qed

text \<open>The run of the instance: the student's weight moves from 1 to 0 (the gradient of
  the loss by the weight is \<open>alpha * x = 1\<close>), its statistic is set to the input, and
  the teacher's weight stays \<open>ln 3\<close>.\<close>

theorem train_step_updates_student_only_witness:
  "set (weights (teacher toy_distiller))
     \<inter> (set (trainable_variables (student toy_distiller)) \<union> set (weights (student toy_distiller))) = {} \<and>
   train_step toy_gradient toy_distiller [10, 7] (toy_state 10)
     = (Inr [''accuracy'' \<mapsto> Fin 1, ''student_loss'' \<mapsto> Fin (3 + 10 * ln 2),
             ''distillation_loss'' \<mapsto> Fin (25 / 12)],
        \<lparr>variables = (variables (toy_state 10))(3 := Fin 10, 0 := Fin 0),
         optimizer_state = 1, metrics_state = 1\<rparr>) \<and>
   variables (toy_state 10) 0 = Fin 1 \<and>
   variables (snd (train_step toy_gradient toy_distiller [10, 7] (toy_state 10))) 0 = Fin 0 \<and>
   weights (teacher toy_distiller) = [1] \<and>
   variables (toy_state 10) 1 = Fin (ln 3) \<and>
   variables (snd (train_step toy_gradient toy_distiller [10, 7] (toy_state 10))) 1 = Fin (ln 3) \<and>
   (\<exists>gs. toy_gradient (taped_loss toy_distiller [[Fin (10 * ln 3), Fin 0]] 10 7)
            (variables (toy_state 10)) (trainable_variables (student toy_distiller)) = Inr gs \<and>
      apply_gradients (optimizer toy_distiller) (zip gs (trainable_variables (student toy_distiller)))
           0 ((variables (toy_state 10))(3 := Fin 10))
        = (None, 1, (variables (toy_state 10))(3 := Fin 10, 0 := Fin 0)))"
proof -
  have o: "writes_only_given (apply_gradients (optimizer toy_distiller))"
    using sgd_writes_only_given by (simp add: toy_distiller_def compile_def)
  have a: "assigns_own_weights (student toy_distiller)"
    using toy_student_assigns_own_weights by (simp add: toy_distiller_def compile_def Distiller_def)
  have dj: "set (weights (teacher toy_distiller))
     \<inter> (set (trainable_variables (student toy_distiller)) \<union> set (weights (student toy_distiller))) = {}"
    by (simp add: toy_distiller_def toy_objects)
  have run: "train_step toy_gradient toy_distiller [10, 7] (toy_state 10)
     = (Inr [''accuracy'' \<mapsto> Fin 1, ''student_loss'' \<mapsto> Fin (3 + 10 * ln 2),
             ''distillation_loss'' \<mapsto> Fin (25 / 12)],
        \<lparr>variables = (variables (toy_state 10))(3 := Fin 10, 0 := Fin 0),
         optimizer_state = 1, metrics_state = 1\<rparr>)"
    using toy_train_step [of 10 "1 / 10" 7] by (simp add: toy_distiller_def)
  have v0: "variables (toy_state 10) 0 = Fin 1" and v1: "variables (toy_state 10) 1 = Fin (ln 3)"
    by (simp_all add: toy_state_def)
  have w0: "variables (snd (train_step toy_gradient toy_distiller [10, 7] (toy_state 10))) 0 = Fin 0"
    by (simp add: run)
  have fr: "\<forall>v\<in>set (weights (teacher toy_distiller)).
      variables (snd (train_step toy_gradient toy_distiller [10, 7] (toy_state 10))) v
        = variables (toy_state 10) v"
    by (rule train_step_updates_student_only
          [OF o a, THEN conjunct2, THEN conjunct1, THEN mp, OF dj])
  from train_step_updates_student_only
          [OF o a, THEN conjunct2, THEN conjunct2, THEN conjunct2, THEN conjunct2, THEN mp, OF run]
  obtain x' y' tp' gs where e: "[10, 7] = [x', y']"
    and c: "call (teacher toy_distiller) (variables (toy_state 10)) x' False
           = (Inr tp', variables (toy_state 10))"
    and g: "toy_gradient (taped_loss toy_distiller tp' x' y') (variables (toy_state 10))
           (trainable_variables (student toy_distiller)) = Inr gs"
    and u: "apply_gradients (optimizer toy_distiller) (zip gs (trainable_variables (student toy_distiller)))
           (optimizer_state (toy_state 10))
           (snd (call (student toy_distiller) (variables (toy_state 10)) x' True))
           = (None, 1, (variables (toy_state 10))(3 := Fin 10, 0 := Fin 0))"
    by auto
  have x': "x' = 10" and y': "y' = 7" using e by simp_all
  have "call (teacher toy_distiller) (variables (toy_state 10)) 10 False
      = (Inr [[Fin (10 * ln 3), Fin 0]], variables (toy_state 10))"
    by (simp add: toy_distiller_def toy_objects)
  then have tp': "tp' = [[Fin (10 * ln 3), Fin 0]]" using c by (simp add: x')
  have os: "optimizer_state (toy_state 10) = 0"
    by (simp add: toy_state_def)
  have sn: "snd (call (student toy_distiller) (variables (toy_state 10)) 10 True)
      = (variables (toy_state 10))(3 := Fin 10)"
    by (simp add: toy_distiller_def compile_def Distiller_def toy_student_def)
  have ap: "\<exists>gs. toy_gradient (taped_loss toy_distiller [[Fin (10 * ln 3), Fin 0]] 10 7)
            (variables (toy_state 10)) (trainable_variables (student toy_distiller)) = Inr gs \<and>
      apply_gradients (optimizer toy_distiller) (zip gs (trainable_variables (student toy_distiller)))
           0 ((variables (toy_state 10))(3 := Fin 10))
        = (None, 1, (variables (toy_state 10))(3 := Fin 10, 0 := Fin 0))"
    using g u unfolding x' y' tp' os sn by blast
  have wt: "weights (teacher toy_distiller) = [1]"
    by (simp add: toy_distiller_def toy_objects)
  have w1: "variables (snd (train_step toy_gradient toy_distiller [10, 7] (toy_state 10))) 1 = Fin (ln 3)"
    using fr v1 by (simp add: wt)
  show ?thesis using dj run v0 w0 wt v1 w1 ap by blast
qed

text \<open>One network passed as student and as teacher: the step changes a weight of the
  teacher.\<close>

theorem shared_weights_counterexample:
  "teacher (compile (Distiller toy_student toy_student) sgd toy_metrics
        toy_student_loss toy_distillation_loss (Some (1 / 10)) (Some 10)) = toy_student \<and>
   weights toy_student = [0, 2, 3] \<and>
   variables (toy_state 10) 0 = Fin 1 \<and>
   train_step toy_gradient
     (compile (Distiller toy_student toy_student) sgd toy_metrics
        toy_student_loss toy_distillation_loss (Some (1 / 10)) (Some 10)) [10, 7] (toy_state 10)
   = (Inr [''accuracy'' \<mapsto> Fin 1, ''student_loss'' \<mapsto> Fin (3 + 10 * ln 2),
           ''distillation_loss'' \<mapsto> Fin 2],
      \<lparr>variables = (variables (toy_state 10))(3 := Fin 10, 0 := Fin 0),
       optimizer_state = 1, metrics_state = 1\<rparr>) \<and>
   variables (snd (train_step toy_gradient
     (compile (Distiller toy_student toy_student) sgd toy_metrics
        toy_student_loss toy_distillation_loss (Some (1 / 10)) (Some 10)) [10, 7] (toy_state 10))) 0
     = Fin 0"
  by (simp add: toy_alias_train_step) (simp add: compile_def Distiller_def toy_student_def toy_state_def)

subsection \<open>Softening and the temperature\<close>




subsection \<open>The returned dictionaries\<close>

text \<open>
  C7. The dictionary \<open>train_step\<close> returns has exactly the names of the compiled
  metrics and \<open>'student_loss'\<close> and \<open>'distillation_loss'\<close> as keys; the one
  \<open>test_step\<close> returns has exactly the names of the metrics and \<open>'student_loss'\<close>, so
  it has a \<open>'distillation_loss'\<close> entry exactly when a metric bears that name. The
  entry under the name of a metric, when that is not the name of a loss entry, is the
  value of \<open>result()\<close> of a metric of that name, read after this step's
  \<open>compiled_metrics.update_state(y, predictions)\<close>. Each step returns this dictionary
  whenever its calls succeed.
\<close>

theorem result_dictionary_keys:
  "(train_step G d data s = (Inr r, s') \<longrightarrow>
      dom r = name ` set (metrics d) \<union> {''student_loss'', ''distillation_loss''} \<and>
      (\<exists>x y sp.
         data = [x, y] \<and>
         fst (call (student d) (variables s) x True) = Inr sp \<and>
         update_state (compiled_metrics d) y sp (metrics_state s) = (None, metrics_state s') \<and>
         (\<forall>m\<in>set (metrics d). name m \<notin> {''student_loss'', ''distillation_loss''} \<longrightarrow>
            (\<exists>m'\<in>set (metrics d). name m' = name m \<and>
               (\<exists>v. result m' (metrics_state s') = Inr v \<and> r (name m) = Some v))))) \<and>
   (test_step d data s = (Inr r', s'') \<longrightarrow>
      dom r' = name ` set (metrics d) \<union> {''student_loss''} \<and>
      (''distillation_loss'' \<in> dom r' \<longleftrightarrow> ''distillation_loss'' \<in> name ` set (metrics d)) \<and>
      (\<exists>x y yp.
         data = [x, y] \<and>
         fst (call (student d) (variables s) x False) = Inr yp \<and>
         update_state (compiled_metrics d) y yp (metrics_state s) = (None, metrics_state s'') \<and>
         (\<forall>m\<in>set (metrics d). name m \<noteq> ''student_loss'' \<longrightarrow>
            (\<exists>m'\<in>set (metrics d). name m' = name m \<and>
               (\<exists>v. result m' (metrics_state s'') = Inr v \<and> r' (name m) = Some v))))) \<and>
   (fst (call (teacher d) (variables s) x False) = Inr tp \<and>
    taped d tp x y (variables s) = Inr (sp, sl, dl, loss) \<and>
    G (taped_loss d tp x y) (variables s) (trainable_variables (student d)) = Inr gs \<and>
    apply_gradients (optimizer d) (zip gs (trainable_variables (student d)))
      (optimizer_state s) (snd (call (student d) (variables s) x True)) = (None, os', vs') \<and>
    update_state (compiled_metrics d) y sp (metrics_state s) = (None, ms') \<and>
    metric_results (metrics d) ms' Map.empty = Inr res \<longrightarrow>
      train_step G d [x, y] s
        = (Inr (res ++ [''student_loss'' \<mapsto> sl, ''distillation_loss'' \<mapsto> dl]),
           s\<lparr>variables := vs', optimizer_state := os', metrics_state := ms'\<rparr>)) \<and>
   (fst (call (student d) (variables s) x False) = Inr yp \<and>
    student_loss_fn d y yp = Inr sl' \<and>
    update_state (compiled_metrics d) y yp (metrics_state s) = (None, ms'') \<and>
    metric_results (metrics d) ms'' Map.empty = Inr res' \<longrightarrow>
      test_step d [x, y] s
        = (Inr (res' ++ [''student_loss'' \<mapsto> sl']), s\<lparr>metrics_state := ms''\<rparr>))"
proof (intro conjI impI)
  assume a: "train_step G d data s = (Inr r, s')"
  then obtain x y sp sl dl ms' res where
    d: "data = [x, y]" and c: "fst (call (student d) (variables s) x True) = Inr sp"
    and u: "update_state (compiled_metrics d) y sp (metrics_state s) = (None, ms')"
    and m: "metric_results (metrics d) ms' Map.empty = Inr res"
    and r: "r = res ++ [''student_loss'' \<mapsto> sl, ''distillation_loss'' \<mapsto> dl]"
    and s': "metrics_state s' = ms'"
    unfolding train_step_Inr taped_Inr by auto
  show "dom r = name ` set (metrics d) \<union> {''student_loss'', ''distillation_loss''}"
    using metric_results_dom [OF m] by (auto simp: r)
  have e: "\<exists>m'\<in>set (metrics d). name m' = name m0 \<and>
               (\<exists>v. result m' (metrics_state s') = Inr v \<and> r (name m0) = Some v)"
    if m0: "m0 \<in> set (metrics d)" and n0: "name m0 \<notin> {''student_loss'', ''distillation_loss''}" for m0
  proof -
    obtain m' v where "m' \<in> set (metrics d)" "name m' = name m0" "result m' ms' = Inr v"
      "res (name m0) = Some v"
      using metric_results_entry [OF m m0] by blast
    moreover have "r (name m0) = res (name m0)"
      using n0 by (simp add: r map_add_def)
    ultimately show ?thesis using s' by auto
  qed
  show "\<exists>x y sp.
         data = [x, y] \<and>
         fst (call (student d) (variables s) x True) = Inr sp \<and>
         update_state (compiled_metrics d) y sp (metrics_state s) = (None, metrics_state s') \<and>
         (\<forall>m\<in>set (metrics d). name m \<notin> {''student_loss'', ''distillation_loss''} \<longrightarrow>
            (\<exists>m'\<in>set (metrics d). name m' = name m \<and>
               (\<exists>v. result m' (metrics_state s') = Inr v \<and> r (name m) = Some v)))"
    using d c u s' e by blast
next
  assume a: "test_step d data s = (Inr r', s'')"
  then obtain x y yp sl ms' res where
    d: "data = [x, y]" and c: "fst (call (student d) (variables s) x False) = Inr yp"
    and u: "update_state (compiled_metrics d) y yp (metrics_state s) = (None, ms')"
    and m: "metric_results (metrics d) ms' Map.empty = Inr res"
    and r: "r' = res ++ [''student_loss'' \<mapsto> sl]"
    and s': "metrics_state s'' = ms'"
    unfolding test_step_Inr by auto
  show k: "dom r' = name ` set (metrics d) \<union> {''student_loss''}"
    using metric_results_dom [OF m] by (auto simp: r)
  show "''distillation_loss'' \<in> dom r' \<longleftrightarrow> ''distillation_loss'' \<in> name ` set (metrics d)"
    unfolding k by simp
  have e: "\<exists>m'\<in>set (metrics d). name m' = name m0 \<and>
               (\<exists>v. result m' (metrics_state s'') = Inr v \<and> r' (name m0) = Some v)"
    if m0: "m0 \<in> set (metrics d)" and n0: "name m0 \<noteq> ''student_loss''" for m0
  proof -
    obtain m' v where "m' \<in> set (metrics d)" "name m' = name m0" "result m' ms' = Inr v"
      "res (name m0) = Some v"
      using metric_results_entry [OF m m0] by blast
    moreover have "r' (name m0) = res (name m0)"
      using n0 by (simp add: r map_add_def)
    ultimately show ?thesis using s' by auto
  qed
  show "\<exists>x y yp.
         data = [x, y] \<and>
         fst (call (student d) (variables s) x False) = Inr yp \<and>
         update_state (compiled_metrics d) y yp (metrics_state s) = (None, metrics_state s'') \<and>
         (\<forall>m\<in>set (metrics d). name m \<noteq> ''student_loss'' \<longrightarrow>
            (\<exists>m'\<in>set (metrics d). name m' = name m \<and>
               (\<exists>v. result m' (metrics_state s'') = Inr v \<and> r' (name m) = Some v)))"
    using d c u s' e by blast
next
  assume "fst (call (teacher d) (variables s) x False) = Inr tp \<and>
    taped d tp x y (variables s) = Inr (sp, sl, dl, loss) \<and>
    G (taped_loss d tp x y) (variables s) (trainable_variables (student d)) = Inr gs \<and>
    apply_gradients (optimizer d) (zip gs (trainable_variables (student d)))
      (optimizer_state s) (snd (call (student d) (variables s) x True)) = (None, os', vs') \<and>
    update_state (compiled_metrics d) y sp (metrics_state s) = (None, ms') \<and>
    metric_results (metrics d) ms' Map.empty = Inr res"
  then show "train_step G d [x, y] s
        = (Inr (res ++ [''student_loss'' \<mapsto> sl, ''distillation_loss'' \<mapsto> dl]),
           s\<lparr>variables := vs', optimizer_state := os', metrics_state := ms'\<rparr>)"
    unfolding train_step_Inr by blast
next
  assume "fst (call (student d) (variables s) x False) = Inr yp \<and>
    student_loss_fn d y yp = Inr sl' \<and>
    update_state (compiled_metrics d) y yp (metrics_state s) = (None, ms'') \<and>
    metric_results (metrics d) ms'' Map.empty = Inr res'"
  then show "test_step d [x, y] s
        = (Inr (res' ++ [''student_loss'' \<mapsto> sl']), s\<lparr>metrics_state := ms''\<rparr>)"
    unfolding test_step_Inr by blast
qed

text \<open>The runs of the instance: the metric \<open>'accuracy'\<close> has counted one batch.\<close>

theorem result_dictionary_keys_witness:
  "train_step toy_gradient toy_distiller [10, 7] (toy_state 10)
     = (Inr [''accuracy'' \<mapsto> Fin 1, ''student_loss'' \<mapsto> Fin (3 + 10 * ln 2),
             ''distillation_loss'' \<mapsto> Fin (25 / 12)],
        \<lparr>variables = (variables (toy_state 10))(3 := Fin 10, 0 := Fin 0),
         optimizer_state = 1, metrics_state = 1\<rparr>) \<and>
   test_step toy_distiller [10, 7] (toy_state 10)
     = (Inr [''accuracy'' \<mapsto> Fin 1, ''student_loss'' \<mapsto> Fin (3 + 10 * ln 2)],
        \<lparr>variables = variables (toy_state 10), optimizer_state = 0, metrics_state = 1\<rparr>) \<and>
   dom [''accuracy'' \<mapsto> Fin 1, ''student_loss'' \<mapsto> Fin (3 + 10 * ln 2),
        ''distillation_loss'' \<mapsto> Fin (25 / 12)]
     = {''accuracy'', ''student_loss'', ''distillation_loss''} \<and>
   dom [''accuracy'' \<mapsto> Fin 1, ''student_loss'' \<mapsto> Fin (3 + 10 * ln 2)]
     = {''accuracy'', ''student_loss''} \<and>
   ''distillation_loss'' \<notin> dom [''accuracy'' \<mapsto> Fin 1, ''student_loss'' \<mapsto> Fin (3 + 10 * ln 2)] \<and>
   update_state (compiled_metrics toy_distiller) 7 [[Fin (10 + 10 * ln 2), Fin 10]] 0 = (None, 1) \<and>
   map (\<lambda>m. (name m, result m 1)) (metrics toy_distiller) = [(''accuracy'', Inr (Fin 1))]"
proof -
  have run: "train_step toy_gradient toy_distiller [10, 7] (toy_state 10)
     = (Inr [''accuracy'' \<mapsto> Fin 1, ''student_loss'' \<mapsto> Fin (3 + 10 * ln 2),
             ''distillation_loss'' \<mapsto> Fin (25 / 12)],
        \<lparr>variables = (variables (toy_state 10))(3 := Fin 10, 0 := Fin 0),
         optimizer_state = 1, metrics_state = 1\<rparr>)"
    using toy_train_step [of 10 "1 / 10" 7] by (simp add: toy_distiller_def)
  have test: "test_step toy_distiller [10, 7] (toy_state 10)
     = (Inr [''accuracy'' \<mapsto> Fin 1, ''student_loss'' \<mapsto> Fin (3 + 10 * ln 2)],
        \<lparr>variables = variables (toy_state 10), optimizer_state = 0, metrics_state = 1\<rparr>)"
    using toy_test_step [of "Some (1 / 10)" "Some 10" 7 10] by (simp add: toy_distiller_def)
  have names: "name ` set (metrics toy_distiller) = {''accuracy''}"
    by (simp add: toy_distiller_def toy_objects)
  have k1: "dom [''accuracy'' \<mapsto> Fin 1, ''student_loss'' \<mapsto> Fin (3 + 10 * ln 2),
        ''distillation_loss'' \<mapsto> Fin (25 / 12)]
     = name ` set (metrics toy_distiller) \<union> {''student_loss'', ''distillation_loss''}"
    using result_dictionary_keys [THEN conjunct1, THEN mp, OF run] by (rule conjunct1)
  have k2: "dom [''accuracy'' \<mapsto> Fin 1, ''student_loss'' \<mapsto> Fin (3 + 10 * ln 2)]
     = name ` set (metrics toy_distiller) \<union> {''student_loss''}"
    using result_dictionary_keys [THEN conjunct2, THEN conjunct1, THEN mp, OF test]
    by (rule conjunct1)
  have k3: "''distillation_loss'' \<notin> dom [''accuracy'' \<mapsto> Fin 1, ''student_loss'' \<mapsto> Fin (3 + 10 * ln 2)]"
    unfolding k2 names by simp
  have u: "update_state (compiled_metrics toy_distiller) 7 [[Fin (10 + 10 * ln 2), Fin 10]] 0 = (None, 1)"
    by (simp add: toy_distiller_def toy_objects)
  have m: "map (\<lambda>m. (name m, result m 1)) (metrics toy_distiller) = [(''accuracy'', Inr (Fin 1))]"
    by (simp add: toy_distiller_def toy_objects)
  have k1': "dom [''accuracy'' \<mapsto> Fin 1, ''student_loss'' \<mapsto> Fin (3 + 10 * ln 2),
        ''distillation_loss'' \<mapsto> Fin (25 / 12)]
     = {''accuracy'', ''student_loss'', ''distillation_loss''}"
    unfolding k1 names by (simp add: insert_commute)
  have k2': "dom [''accuracy'' \<mapsto> Fin 1, ''student_loss'' \<mapsto> Fin (3 + 10 * ln 2)]
     = {''accuracy'', ''student_loss''}"
    unfolding k2 names by (simp add: insert_commute)
  show ?thesis using run test k1' k2' k3 u m by blast
qed

text \<open>
  C7 as stated fails when a compiled metric bears the name of a loss entry. With a metric
  named \<open>'distillation_loss'\<close> the dictionary of \<open>test_step\<close> has an entry of that
  name, the metric's. With a metric named \<open>'student_loss'\<close> the dictionary of
  \<open>train_step\<close> has two entries, not three, and the one under \<open>'student_loss'\<close> is
  the loss, not the metric's value 1.
\<close>

theorem metric_name_counterexample:
  "fst (test_step
     (compile (Distiller toy_student toy_teacher) sgd
        (toy_metrics\<lparr>members := [\<lparr>name = ''distillation_loss'', result = (\<lambda>n. Inr (Fin (real n)))\<rparr>]\<rparr>)
        toy_student_loss toy_distillation_loss (Some (1 / 10)) (Some 10)) [10, 7] (toy_state 10))
     = Inr [''distillation_loss'' \<mapsto> Fin 1, ''student_loss'' \<mapsto> Fin (3 + 10 * ln 2)] \<and>
   fst (train_step toy_gradient
     (compile (Distiller toy_student toy_teacher) sgd
        (toy_metrics\<lparr>members := [\<lparr>name = ''student_loss'', result = (\<lambda>n. Inr (Fin (real n)))\<rparr>]\<rparr>)
        toy_student_loss toy_distillation_loss (Some (1 / 10)) (Some 10)) [10, 7] (toy_state 10))
     = Inr [''student_loss'' \<mapsto> Fin (3 + 10 * ln 2), ''distillation_loss'' \<mapsto> Fin (25 / 12)]"
proof
  show "fst (test_step
     (compile (Distiller toy_student toy_teacher) sgd
        (toy_metrics\<lparr>members := [\<lparr>name = ''distillation_loss'', result = (\<lambda>n. Inr (Fin (real n)))\<rparr>]\<rparr>)
        toy_student_loss toy_distillation_loss (Some (1 / 10)) (Some 10)) [10, 7] (toy_state 10))
     = Inr [''distillation_loss'' \<mapsto> Fin 1, ''student_loss'' \<mapsto> Fin (3 + 10 * ln 2)]"
    by (simp add: test_step_def toy_objects fl_sub_def fun_eq_iff)
  have "train_step toy_gradient
     (compile (Distiller toy_student toy_teacher) sgd
        (toy_metrics\<lparr>members := [\<lparr>name = ''student_loss'', result = (\<lambda>n. Inr (Fin (real n)))\<rparr>]\<rparr>)
        toy_student_loss toy_distillation_loss (Some (1 / 10)) (Some 10)) [10, 7] (toy_state 10)
     = (Inr ([''student_loss'' \<mapsto> Fin 1] ++ [''student_loss'' \<mapsto> Fin (10 + 10 * ln 2 - 7),
             ''distillation_loss'' \<mapsto> Fin (25 / 12)]),
        \<lparr>variables = (variables (toy_state 10))(3 := Fin 10, 0 := Fin (1 - 1 / 10 * 10)),
         optimizer_state = 1, metrics_state = 1\<rparr>)"
    unfolding toy_train_step_metrics [of 10, simplified]
    by (simp add: toy_metrics_def)
  then show "fst (train_step toy_gradient
     (compile (Distiller toy_student toy_teacher) sgd
        (toy_metrics\<lparr>members := [\<lparr>name = ''student_loss'', result = (\<lambda>n. Inr (Fin (real n)))\<rparr>]\<rparr>)
        toy_student_loss toy_distillation_loss (Some (1 / 10)) (Some 10)) [10, 7] (toy_state 10))
     = Inr [''student_loss'' \<mapsto> Fin (3 + 10 * ln 2), ''distillation_loss'' \<mapsto> Fin (25 / 12)]"
    by (simp add: fun_eq_iff)
qed

subsection \<open>Exceptions\<close>

text \<open>
  C8. Neither step catches an exception, retries or recovers, and the only check on the
  batch is the unpacking \<open>x, y = data\<close>. A step raises the \<open>ValueError\<close> of the
  unpacking exactly when the batch has not two elements, and then nothing has been
  called and the state is as before. Otherwise \<open>train_step\<close> raises \<open>e\<close> exactly when
  one of the library calls it makes, in the order of the source, is the first to raise,
  and raises \<open>e\<close>: the teacher's forward pass, the student's forward pass, the student
  loss, the distillation loss, \<open>tape.gradient\<close>, \<open>apply_gradients\<close>, the update of the
  metrics, a metric's \<open>result()\<close>. Nothing is undone: the state left behind is the one
  that the calls before the failing one, and the failing one itself, have produced.
  Likewise \<open>test_step\<close> with its four calls.
\<close>

theorem steps_propagate_exceptions:
  "(train_step G d data s = (Inl Unpack_ValueError, s') \<longleftrightarrow> length data \<noteq> 2 \<and> s' = s) \<and>
   (test_step d data s = (Inl Unpack_ValueError, s') \<longleftrightarrow> length data \<noteq> 2 \<and> s' = s) \<and>
   (train_step G d data s = (Inl (Raised e), s') \<longleftrightarrow>
     (\<exists>x y. data = [x, y] \<and>
        ((fst (call (teacher d) (variables s) x False) = Inl e \<and> s' = s) \<or>
         (\<exists>tp. fst (call (teacher d) (variables s) x False) = Inr tp \<and>
            ((taped d tp x y (variables s) = Inl e \<and>
              s' = s\<lparr>variables := snd (call (student d) (variables s) x True)\<rparr>) \<or>
             (\<exists>sp sl dl loss. taped d tp x y (variables s) = Inr (sp, sl, dl, loss) \<and>
                ((G (taped_loss d tp x y) (variables s) (trainable_variables (student d)) = Inl e \<and>
                  s' = s\<lparr>variables := snd (call (student d) (variables s) x True)\<rparr>) \<or>
                 (\<exists>gs os' vs'.
                    G (taped_loss d tp x y) (variables s) (trainable_variables (student d)) = Inr gs \<and>
                    ((apply_gradients (optimizer d) (zip gs (trainable_variables (student d)))
                        (optimizer_state s) (snd (call (student d) (variables s) x True))
                        = (Some e, os', vs') \<and>
                      s' = s\<lparr>variables := vs', optimizer_state := os'\<rparr>) \<or>
                     (apply_gradients (optimizer d) (zip gs (trainable_variables (student d)))
                        (optimizer_state s) (snd (call (student d) (variables s) x True))
                        = (None, os', vs') \<and>
                      (\<exists>ms'. s' = s\<lparr>variables := vs', optimizer_state := os', metrics_state := ms'\<rparr> \<and>
                         (update_state (compiled_metrics d) y sp (metrics_state s) = (Some e, ms') \<or>
                          (update_state (compiled_metrics d) y sp (metrics_state s) = (None, ms') \<and>
                           metric_results (metrics d) ms' Map.empty = Inl e))))))))))))) \<and>
   (taped d tp0 x0 y0 vs = Inl e \<longleftrightarrow>
      fst (call (student d) vs x0 True) = Inl e \<or>
      (\<exists>sp. fst (call (student d) vs x0 True) = Inr sp \<and>
         (student_loss_fn d y0 sp = Inl e \<or>
          (\<exists>sl. student_loss_fn d y0 sp = Inr sl \<and>
             distillation_loss_fn d (softened (temperature d) tp0) (softened (temperature d) sp) = Inl e)))) \<and>
   (test_step d data s = (Inl (Raised e), s') \<longleftrightarrow>
     (\<exists>x y. data = [x, y] \<and>
        ((fst (call (student d) (variables s) x False) = Inl e \<and> s' = s) \<or>
         (\<exists>yp. fst (call (student d) (variables s) x False) = Inr yp \<and>
            ((student_loss_fn d y yp = Inl e \<and> s' = s) \<or>
             (\<exists>sl ms'. student_loss_fn d y yp = Inr sl \<and> s' = s\<lparr>metrics_state := ms'\<rparr> \<and>
                (update_state (compiled_metrics d) y yp (metrics_state s) = (Some e, ms') \<or>
                 (update_state (compiled_metrics d) y yp (metrics_state s) = (None, ms') \<and>
                  metric_results (metrics d) ms' Map.empty = Inl e)))))))) \<and>
   (metric_results (metrics d) ms Map.empty = Inl e \<longrightarrow> (\<exists>m\<in>set (metrics d). result m ms = Inl e))"
proof -
  have len: "length data \<noteq> 2 \<longleftrightarrow> (\<forall>x y. data \<noteq> [x, y])"
    by (cases data rule: list.exhaust; simp; cases "tl data"; auto simp: length_Suc_conv)
  have a: "train_step G d data s = (Inl Unpack_ValueError, s') \<longleftrightarrow> length data \<noteq> 2 \<and> s' = s"
    unfolding train_step_Inl len by auto
  have b: "test_step d data s = (Inl Unpack_ValueError, s') \<longleftrightarrow> length data \<noteq> 2 \<and> s' = s"
    unfolding test_step_Inl len by auto
  have c: "train_step G d data s = (Inl (Raised e), s') \<longleftrightarrow>
     (\<exists>x y. data = [x, y] \<and>
        ((fst (call (teacher d) (variables s) x False) = Inl e \<and> s' = s) \<or>
         (\<exists>tp. fst (call (teacher d) (variables s) x False) = Inr tp \<and>
            ((taped d tp x y (variables s) = Inl e \<and>
              s' = s\<lparr>variables := snd (call (student d) (variables s) x True)\<rparr>) \<or>
             (\<exists>sp sl dl loss. taped d tp x y (variables s) = Inr (sp, sl, dl, loss) \<and>
                ((G (taped_loss d tp x y) (variables s) (trainable_variables (student d)) = Inl e \<and>
                  s' = s\<lparr>variables := snd (call (student d) (variables s) x True)\<rparr>) \<or>
                 (\<exists>gs os' vs'.
                    G (taped_loss d tp x y) (variables s) (trainable_variables (student d)) = Inr gs \<and>
                    ((apply_gradients (optimizer d) (zip gs (trainable_variables (student d)))
                        (optimizer_state s) (snd (call (student d) (variables s) x True))
                        = (Some e, os', vs') \<and>
                      s' = s\<lparr>variables := vs', optimizer_state := os'\<rparr>) \<or>
                     (apply_gradients (optimizer d) (zip gs (trainable_variables (student d)))
                        (optimizer_state s) (snd (call (student d) (variables s) x True))
                        = (None, os', vs') \<and>
                      (\<exists>ms'. s' = s\<lparr>variables := vs', optimizer_state := os', metrics_state := ms'\<rparr> \<and>
                         (update_state (compiled_metrics d) y sp (metrics_state s) = (Some e, ms') \<or>
                          (update_state (compiled_metrics d) y sp (metrics_state s) = (None, ms') \<and>
                           metric_results (metrics d) ms' Map.empty = Inl e))))))))))))"
    unfolding train_step_Inl by simp
  have t: "taped d tp0 x0 y0 vs = Inl e \<longleftrightarrow>
      fst (call (student d) vs x0 True) = Inl e \<or>
      (\<exists>sp. fst (call (student d) vs x0 True) = Inr sp \<and>
         (student_loss_fn d y0 sp = Inl e \<or>
          (\<exists>sl. student_loss_fn d y0 sp = Inr sl \<and>
             distillation_loss_fn d (softened (temperature d) tp0) (softened (temperature d) sp) = Inl e)))"
    by (rule taped_Inl)
  have e: "test_step d data s = (Inl (Raised e), s') \<longleftrightarrow>
     (\<exists>x y. data = [x, y] \<and>
        ((fst (call (student d) (variables s) x False) = Inl e \<and> s' = s) \<or>
         (\<exists>yp. fst (call (student d) (variables s) x False) = Inr yp \<and>
            ((student_loss_fn d y yp = Inl e \<and> s' = s) \<or>
             (\<exists>sl ms'. student_loss_fn d y yp = Inr sl \<and> s' = s\<lparr>metrics_state := ms'\<rparr> \<and>
                (update_state (compiled_metrics d) y yp (metrics_state s) = (Some e, ms') \<or>
                 (update_state (compiled_metrics d) y yp (metrics_state s) = (None, ms') \<and>
                  metric_results (metrics d) ms' Map.empty = Inl e)))))))"
    unfolding test_step_Inl by simp
  have m: "metric_results (metrics d) ms Map.empty = Inl e \<longrightarrow> (\<exists>m\<in>set (metrics d). result m ms = Inl e)"
    by (rule impI) (rule metric_results_Inl)
  show ?thesis
    using a b c t e m by (intro conjI)
qed

text \<open>Three runs of the instance. The update of the metrics raises: \<open>train_step\<close>
  raises the same, and the student's weight has moved and the optimiser has counted its
  step. The student loss raises in \<open>test_step\<close>: the state is as before. The
  metric's \<open>result()\<close> raises: \<open>test_step\<close> raises the same, after the update of the
  metrics.\<close>

theorem steps_propagate_exceptions_witness:
  "train_step toy_gradient
     (compile (Distiller toy_student toy_teacher) sgd
        (toy_metrics\<lparr>update_state := (\<lambda>y p n. (Some ''shape mismatch'', n))\<rparr>)
        toy_student_loss toy_distillation_loss (Some (1 / 10)) (Some 10)) [10, 7] (toy_state 10)
     = (Inl (Raised ''shape mismatch''),
        (toy_state 10)\<lparr>variables := (variables (toy_state 10))(3 := Fin 10, 0 := Fin 0),
           optimizer_state := 1\<rparr>) \<and>
   test_step
     (compile (Distiller toy_student toy_teacher) sgd toy_metrics
        (\<lambda>y p. Inl ''no labels'') toy_distillation_loss (Some (1 / 10)) (Some 10)) [10, 7] (toy_state 10)
     = (Inl (Raised ''no labels''), toy_state 10) \<and>
   test_step
     (compile (Distiller toy_student toy_teacher) sgd
        (toy_metrics\<lparr>members := [\<lparr>name = ''accuracy'', result = (\<lambda>n. Inl ''no result'')\<rparr>]\<rparr>)
        toy_student_loss toy_distillation_loss (Some (1 / 10)) (Some 10)) [10, 7] (toy_state 10)
     = (Inl (Raised ''no result''), (toy_state 10)\<lparr>metrics_state := 1\<rparr>) \<and>
   (\<exists>m\<in>set (metrics (compile (Distiller toy_student toy_teacher) sgd
        (toy_metrics\<lparr>members := [\<lparr>name = ''accuracy'', result = (\<lambda>n. Inl ''no result'')\<rparr>]\<rparr>)
        toy_student_loss toy_distillation_loss (Some (1 / 10)) (Some 10))).
      result m (1::nat) = Inl ''no result'')"
proof (intro conjI)
  let ?d1 = "compile (Distiller toy_student toy_teacher) sgd
        (toy_metrics\<lparr>update_state := (\<lambda>y p n. (Some ''shape mismatch'', n))\<rparr>)
        toy_student_loss toy_distillation_loss (Some (1 / 10)) (Some 10)"
  let ?d2 = "compile (Distiller toy_student toy_teacher) sgd toy_metrics
        (\<lambda>y p. Inl ''no labels'') toy_distillation_loss (Some (1 / 10)) (Some 10)"
  let ?d3 = "compile (Distiller toy_student toy_teacher) sgd
        (toy_metrics\<lparr>members := [\<lparr>name = ''accuracy'', result = (\<lambda>n. Inl ''no result'')\<rparr>]\<rparr>)
        toy_student_loss toy_distillation_loss (Some (1 / 10)) (Some 10)"
  have tp: "fst (call (teacher ?d1) (variables (toy_state 10)) 10 False) = Inr [[Fin (10 * ln 3), Fin 0]]"
    by (simp add: toy_objects)
  have tape: "taped ?d1 [[Fin (10 * ln 3), Fin 0]] 10 7 (variables (toy_state 10))
      = Inr ([[Fin (10 + 10 * ln 2), Fin 10]], Fin (3 + 10 * ln 2), Fin (25 / 12),
             Fin (1 / 10 * (3 + 10 * ln 2) + 9 / 10 * (25 / 12)))"
    using toy_taped [of 10 _ "1 / 10" 10 7 1] by (simp add: toy_state_weight)
  have grad: "toy_gradient (taped_loss ?d1 [[Fin (10 * ln 3), Fin 0]] 10 7) (variables (toy_state 10))
      (trainable_variables (student ?d1)) = Inr [Fin 1]"
    using toy_gradient_is_derivative(2) [of 10 _ "1 / 10" 10 7 1]
    by (simp add: toy_state_weight compile_def Distiller_def toy_student_def)
  have upd: "apply_gradients (optimizer ?d1) (zip [Fin 1] (trainable_variables (student ?d1)))
      (optimizer_state (toy_state 10)) (snd (call (student ?d1) (variables (toy_state 10)) 10 True))
      = (None, 1, (variables (toy_state 10))(3 := Fin 10, 0 := Fin 0))"
    by (simp add: toy_objects fl_sub_def)
  have met: "update_state (compiled_metrics ?d1) 7 [[Fin (10 + 10 * ln 2), Fin 10]]
      (metrics_state (toy_state 10)) = (Some ''shape mismatch'', 0)"
    by (simp add: toy_objects)
  have st: "(toy_state 10)\<lparr>variables := (variables (toy_state 10))(3 := Fin 10, 0 := Fin 0),
           optimizer_state := 1\<rparr>
      = (toy_state 10)\<lparr>variables := (variables (toy_state 10))(3 := Fin 10, 0 := Fin 0),
           optimizer_state := 1, metrics_state := 0\<rparr>"
    by (simp add: toy_state_def)
  show "train_step toy_gradient ?d1 [10, 7] (toy_state 10)
     = (Inl (Raised ''shape mismatch''),
        (toy_state 10)\<lparr>variables := (variables (toy_state 10))(3 := Fin 10, 0 := Fin 0),
           optimizer_state := 1\<rparr>)"
    apply (rule steps_propagate_exceptions
        [THEN conjunct2, THEN conjunct2, THEN conjunct1, THEN iffD2])
    using tp tape grad upd met st apply blast
    done
  have sp: "fst (call (student ?d2) (variables (toy_state 10)) 10 False)
      = Inr [[Fin (10 + 10 * ln 2), Fin 10]]"
    by (simp add: toy_objects)
  have sl: "student_loss_fn ?d2 7 [[Fin (10 + 10 * ln 2), Fin 10]] = Inl ''no labels''"
    by (simp add: compile_def)
  show "test_step ?d2 [10, 7] (toy_state 10) = (Inl (Raised ''no labels''), toy_state 10)"
    apply (rule steps_propagate_exceptions
        [THEN conjunct2, THEN conjunct2, THEN conjunct2, THEN conjunct2, THEN conjunct1, THEN iffD2])
    using sp sl apply blast
    done
  have sp3: "fst (call (student ?d3) (variables (toy_state 10)) 10 False)
      = Inr [[Fin (10 + 10 * ln 2), Fin 10]]"
    by (simp add: toy_objects)
  have sl3: "student_loss_fn ?d3 7 [[Fin (10 + 10 * ln 2), Fin 10]] = Inr (Fin (3 + 10 * ln 2))"
    by (simp add: toy_objects fl_sub_def)
  have met3: "update_state (compiled_metrics ?d3) 7 [[Fin (10 + 10 * ln 2), Fin 10]]
      (metrics_state (toy_state 10)) = (None, 1)"
    by (simp add: toy_objects)
  have res3: "metric_results (metrics ?d3) 1 Map.empty = Inl ''no result''"
    by (simp add: toy_objects)
  show "test_step ?d3 [10, 7] (toy_state 10)
      = (Inl (Raised ''no result''), (toy_state 10)\<lparr>metrics_state := 1\<rparr>)"
    apply (rule steps_propagate_exceptions
        [THEN conjunct2, THEN conjunct2, THEN conjunct2, THEN conjunct2, THEN conjunct1, THEN iffD2])
    using sp3 sl3 met3 res3 apply blast
    done
  show "\<exists>m\<in>set (metrics ?d3). result m (1::nat) = Inl ''no result''"
    using res3
    by (rule steps_propagate_exceptions
        [THEN conjunct2, THEN conjunct2, THEN conjunct2, THEN conjunct2, THEN conjunct2, THEN mp])
qed

text \<open>
  C8 as stated fails for a batch that is not a pair, such as the triple of inputs,
  labels and sample weights: each step raises the \<open>ValueError\<close> of its own unpacking,
  before any call of the library, so it neither completes nor propagates an exception
  of the library.
\<close>

theorem unpacking_counterexample:
  "train_step toy_gradient toy_distiller [10, 7, 1] (toy_state 10)
     = (Inl Unpack_ValueError, toy_state 10) \<and>
   test_step toy_distiller [10, 7, 1] (toy_state 10) = (Inl Unpack_ValueError, toy_state 10)"
  by (simp add: train_step_def test_step_def)

end
